theory Spec2Isabelle
  imports Complex_Main
begin

section \<open>Values shared by the agents\<close>

text \<open>
  A Python \<open>str\<close> is the sequence of its Unicode code points, so \<open>len\<close> is
  \<open>length\<close> and \<open>==\<close> is equality of lists. The Korean literals of the source
  are written as their code points, each under a name that says what the literal means.
  A Python \<open>float\<close> is modelled by the exact rational it denotes: rounding of binary
  floating point is not part of the model.
\<close>

type_synonym pystr = "nat list"

text \<open>The exceptions the modelled code can raise.\<close>

datatype py_error =
    ValueError        \<comment> \<open>\<open>max()\<close> of an empty sequence\<close>
  | AttributeError    \<comment> \<open>attribute read on a \<open>dict\<close>\<close>
  | TypeError         \<comment> \<open>\<open>len(None)\<close>\<close>
  | StageError pystr  \<comment> \<open>anything raised by a collaborator outside the modelled code\<close>

text \<open>
  The agents receive \<open>Dict\<close> arguments whose list entries they read in two ways: with
  \<open>.get(key, default)\<close>, which needs a \<open>dict\<close>, and with attribute access
  (\<open>profile.strengths\<close>, \<open>gap.gap_size\<close>, \<open>risk.severity\<close>), which needs a
  dataclass instance. \<open>dataclasses.asdict\<close> turns nested instances into dicts, so an
  entry read by attribute is either shape: \<open>Instance\<close> is the dataclass object,
  \<open>AsDict\<close> the dict \<open>asdict\<close> makes of it, on which an attribute read raises
  \<open>AttributeError\<close>.
\<close>

datatype 'a pyobj = Instance 'a | AsDict 'a

fun getattr :: "('a \<Rightarrow> 'b) \<Rightarrow> 'a pyobj \<Rightarrow> py_error + 'b" where
  "getattr field (Instance x) = Inr (field x)"
| "getattr field (AsDict x) = Inl AttributeError"

text \<open>\<open>d.get(k, default)\<close> on a dict literal, given as its list of items.\<close>

definition dict_get :: "('k \<times> 'v) list \<Rightarrow> 'k \<Rightarrow> 'v \<Rightarrow> 'v" where
  "dict_get d k dflt = (case map_of d k of None \<Rightarrow> dflt | Some v \<Rightarrow> v)"

text \<open>\<open>d.get(k, default)\<close> on an argument dict: a key is \<open>None\<close> when absent.\<close>

definition get_or :: "'v option \<Rightarrow> 'v \<Rightarrow> 'v" where
  "get_or entry dflt = (case entry of None \<Rightarrow> dflt | Some v \<Rightarrow> v)"

text \<open>The three-level scale (U+C0C1 upper, U+C911 middle, U+D558 lower).\<close>

definition SANG :: pystr where
  "SANG = [49345]"

definition JUNG :: pystr where
  "JUNG = [51473]"

definition HA :: pystr where
  "HA = [54616]"

definition Unknown :: pystr where
  "Unknown = [85, 110, 107, 110, 111, 119, 110]"

section \<open>The dataclasses of the agents\<close>

text \<open>
  One record per dataclass, with the source's field names; a field name that two
  dataclasses share carries a prefix in all but one of them. An \<open>Optional\<close> field is
  an \<open>option\<close>, a \<open>Dict[str, str]\<close> the list of its items.
\<close>

subsection \<open>RFP understanding agent\<close>

record Requirement =
  req_category :: pystr
  req_description :: pystr
  req_priority :: pystr
  req_complexity :: pystr

record EvaluationCriteria =
  ec_item :: pystr
  ec_weight :: rat
  ec_min_score :: "rat option"
  ec_evaluation_type :: pystr
  ec_description :: pystr

record RiskFlag =
  flag_risk_type :: pystr
  flag_description :: pystr
  flag_severity :: pystr
  flag_mitigation :: "pystr option"

record RFPAnalysisResult =
  requirements :: "Requirement list"
  evaluation_criteria :: "EvaluationCriteria list"
  risk_flags :: "RiskFlag list"
  rfp_timeline :: "pystr option"
  budget_range :: "pystr option"
  submission_format :: "pystr option"

subsection \<open>Internal RAG agent\<close>

record ProjectMatch =
  project_id :: pystr
  pm_project_name :: pystr
  similarity_score :: rat
  matching_requirements :: "pystr list"
  pm_success_factors :: "pystr list"
  lessons_learned :: "pystr list"

record SkillGap =
  skill_area :: pystr
  required_level :: pystr
  current_level :: pystr
  gap_size :: pystr
  improvement_suggestions :: "pystr list"

record Reference =
  ref_project_name :: pystr
  client :: pystr
  success_metrics :: "(pystr \<times> pystr) list"
  sla_performance :: "(pystr \<times> pystr) list"
  customer_feedback :: pystr
  applicable_requirements :: "pystr list"

record InternalMatchResult =
  project_matches :: "ProjectMatch list"
  skill_gaps :: "SkillGap list"
  references :: "Reference list"
  overall_readiness :: pystr
  confidence_score :: rat

subsection \<open>Competitor intelligence agent\<close>

record CompetitorProfile =
  company_name :: pystr
  portfolio :: "pystr list"
  win_history :: "(pystr \<times> pystr) list list"
  price_positioning :: pystr
  tech_stack :: "pystr list"
  partnerships :: "pystr list"
  cp_strengths :: "pystr list"
  cp_weaknesses :: "pystr list"
  cp_opportunities :: "pystr list"
  cp_threats :: "pystr list"

record CompetitiveAnalysis =
  competitor_profiles :: "CompetitorProfile list"
  our_advantages :: "pystr list"
  our_disadvantages :: "pystr list"
  differentiation_points :: "pystr list"
  market_positioning :: "(pystr \<times> pystr) list"

subsection \<open>Win probability agent\<close>

record EvaluationScore =
  criteria :: pystr
  weight :: rat
  our_score :: rat
  competitor_avg_score :: rat
  score_difference :: rat
  weighted_score :: rat

record RiskFactor =
  risk_type :: pystr
  severity :: pystr
  impact :: rat
  probability :: rat
  mitigation :: "pystr option"

record WinProbabilityResult =
  overall_difficulty :: pystr
  win_probability :: rat
  evaluation_scores :: "EvaluationScore list"
  risk_factors :: "RiskFactor list"
  key_drivers :: "pystr list"
  confidence_level :: rat

subsection \<open>Strategy synthesizer agent\<close>

record ImprovementAction =
  action_type :: pystr
  description :: pystr
  priority :: pystr
  timeline :: pystr
  cost_estimate :: "pystr option"
  success_probability :: rat

record CompanySWOT =
  strengths :: "pystr list"
  weaknesses :: "pystr list"
  opportunities :: "pystr list"
  threats :: "pystr list"
  strategic_focus :: "pystr list"

record DifferentiationMessage =
  key_point :: pystr
  supporting_evidence :: "pystr list"
  dm_evaluation_criteria :: pystr
  competitive_advantage :: pystr

text \<open>
  \<open>company_swot\<close> is annotated \<open>CompanySWOT\<close>; it is an \<open>option\<close> here because the
  orchestrator's error result stores \<open>None\<close> in it.
\<close>

record StrategySynthesis =
  improvement_actions :: "ImprovementAction list"
  company_swot :: "CompanySWOT option"
  differentiation_messages :: "DifferentiationMessage list"
  strategic_recommendations :: "pystr list"
  success_factors :: "pystr list"

subsection \<open>The dict arguments\<close>

text \<open>
  The scoring and synthesis agents take \<open>Dict\<close> arguments. Each is the record of the
  keys the code reads, \<open>None\<close> for an absent key (where \<open>.get\<close> falls back to its
  default). Entries read with \<open>.get\<close> are dicts themselves; entries read by attribute
  are \<open>pyobj\<close>s.
\<close>

record criteria_dict =
  cd_item :: "pystr option"
  cd_weight :: "rat option"

record risk_flag_dict =
  rfd_risk_type :: "pystr option"
  rfd_severity :: "pystr option"
  rfd_mitigation :: "pystr option"

record internal_match_dict =
  imd_overall_readiness :: "pystr option"
  imd_confidence_score :: "rat option"
  imd_skill_gaps :: "SkillGap pyobj list option"
  imd_our_advantages :: "pystr list option"
  imd_our_disadvantages :: "pystr list option"

record competitor_analysis_dict =
  cad_competitor_profiles :: "CompetitorProfile pyobj list option"
  cad_our_advantages :: "pystr list option"
  cad_differentiation_points :: "pystr list option"

record rfp_analysis_dict =
  rad_risk_flags :: "RiskFlag pyobj list option"
  rad_evaluation_criteria :: "criteria_dict list option"

record win_probability_dict =
  wpd_overall_difficulty :: "pystr option"
  wpd_win_probability :: "rat option"

section \<open>Win probability agent\<close>

definition readiness_scores :: "(pystr \<times> rat) list" where
  "readiness_scores = [(SANG, 9/10), (JUNG, 6/10), (HA, 3/10)]"

definition calculate_our_score :: "criteria_dict \<Rightarrow> internal_match_dict \<Rightarrow> rat" where
  "calculate_our_score crit im =
     (let readiness = get_or (imd_overall_readiness im) HA;
          confidence = get_or (imd_confidence_score im) 0;
          base_score = dict_get readiness_scores readiness (3/10);
          adjusted_score = base_score * (1/2 + confidence * (1/2))
      in min 1 (max 0 adjusted_score))"

text \<open>The loop of \<open>_calculate_competitor_score\<close>, with \<open>total_score\<close> as accumulator.\<close>

fun competitor_score_loop :: "CompetitorProfile pyobj list \<Rightarrow> rat \<Rightarrow> py_error + rat" where
  "competitor_score_loop [] total_score = Inr total_score"
| "competitor_score_loop (profile # profiles) total_score =
     (case getattr cp_strengths profile of
        Inl e \<Rightarrow> Inl e
      | Inr profile_strengths \<Rightarrow>
          (case getattr cp_weaknesses profile of
             Inl e \<Rightarrow> Inl e
           | Inr profile_weaknesses \<Rightarrow>
               (let strength_score = of_nat (length profile_strengths) * (1/10);
                    weakness_penalty = of_nat (length profile_weaknesses) * (1/20);
                    score = min 1 (max 0 (1/2 + strength_score - weakness_penalty))
                in competitor_score_loop profiles (total_score + score))))"

definition calculate_competitor_score ::
  "criteria_dict \<Rightarrow> competitor_analysis_dict \<Rightarrow> py_error + rat" where
  "calculate_competitor_score crit ca =
     (let profiles = get_or (cad_competitor_profiles ca) []
      in if profiles = [] then Inr (1/2)
         else (case competitor_score_loop profiles 0 of
                 Inl e \<Rightarrow> Inl e
               | Inr total_score \<Rightarrow> Inr (total_score / of_nat (length profiles))))"

fun calculate_evaluation_scores ::
  "criteria_dict list \<Rightarrow> internal_match_dict \<Rightarrow> competitor_analysis_dict
     \<Rightarrow> py_error + EvaluationScore list" where
  "calculate_evaluation_scores [] im ca = Inr []"
| "calculate_evaluation_scores (crit # rest) im ca =
     (let our = calculate_our_score crit im
      in case calculate_competitor_score crit ca of
           Inl e \<Rightarrow> Inl e
         | Inr competitor_avg \<Rightarrow>
             (let difference = our - competitor_avg;
                  w = get_or (cd_weight crit) (2/10);
                  score = \<lparr> criteria = get_or (cd_item crit) Unknown,
                            weight = w,
                            our_score = our,
                            competitor_avg_score = competitor_avg,
                            score_difference = difference,
                            weighted_score = difference * w \<rparr>
              in case calculate_evaluation_scores rest im ca of
                   Inl e \<Rightarrow> Inl e
                 | Inr scores \<Rightarrow> Inr (score # scores)))"

text \<open>Risk categories: contradiction, unclear, legal, security, licence.\<close>

definition risk_mosun :: pystr where
  "risk_mosun = [47784, 49692]"

definition risk_bulmyeonghwak :: pystr where
  "risk_bulmyeonghwak = [48520, 47749, 54869]"

definition risk_beopjeok :: pystr where
  "risk_beopjeok = [48277, 51201]"

definition risk_boan :: pystr where
  "risk_boan = [48372, 50504]"

definition risk_license :: pystr where
  "risk_license = [46972, 51060, 49440, 49828]"

definition impact_scores :: "(pystr \<times> rat) list" where
  "impact_scores = [(SANG, 8/10), (JUNG, 5/10), (HA, 2/10)]"

definition probability_scores :: "(pystr \<times> rat) list" where
  "probability_scores =
     [(risk_mosun, 3/10), (risk_bulmyeonghwak, 6/10), (risk_beopjeok, 2/10),
      (risk_boan, 4/10), (risk_license, 3/10)]"

definition analyze_risk_flag :: "risk_flag_dict \<Rightarrow> RiskFactor" where
  "analyze_risk_flag risk =
     (let rt = get_or (rfd_risk_type risk) Unknown;
          sev = get_or (rfd_severity risk) JUNG
      in \<lparr> risk_type = rt,
           severity = sev,
           impact = dict_get impact_scores sev (5/10),
           probability = dict_get probability_scores rt (4/10),
           mitigation = rfd_mitigation risk \<rparr>)"

definition analyze_risk_factors :: "risk_flag_dict list \<Rightarrow> RiskFactor list" where
  "analyze_risk_factors flags = map analyze_risk_flag flags"

definition calculate_risk_adjustment :: "RiskFactor list \<Rightarrow> rat" where
  "calculate_risk_adjustment risks =
     (if risks = [] then 0
      else (let total_risk = foldl (\<lambda>total risk. total + impact risk * probability risk) 0 risks;
                avg_risk = total_risk / of_nat (length risks)
            in min (3/10) avg_risk))"

definition determine_difficulty_and_probability ::
  "rat \<Rightarrow> RiskFactor list \<Rightarrow> pystr \<times> rat" where
  "determine_difficulty_and_probability adjusted_score risks =
     (let base_probability = (adjusted_score + 1) / 2;
          high_risk_count = length (filter (\<lambda>r. severity r = SANG) risks);
          risk_penalty = of_nat high_risk_count * (1/10);
          win_prob = max 0 (min 1 (base_probability - risk_penalty));
          difficulty = (if win_prob \<ge> 7/10 then HA
                        else if win_prob \<ge> 4/10 then JUNG
                        else SANG)
      in (difficulty, win_prob))"

text \<open>
  \<open>max(xs, key=k)\<close>: the first entry whose key is greatest; \<open>ValueError\<close> on an
  empty list.
\<close>

fun py_max_key :: "('a \<Rightarrow> rat) \<Rightarrow> 'a list \<Rightarrow> py_error + 'a" where
  "py_max_key k [] = Inl ValueError"
| "py_max_key k (x # xs) = Inr (foldl (\<lambda>best y. if k best < k y then y else best) x xs)"

text \<open>
  Driver texts: "competitive advantage in", "competitive disadvantage in", "risk needs
  managing", and the three fixed drivers (technical capability, project management
  ability, price competitiveness).
\<close>

definition sfx_advantage :: pystr where
  "sfx_advantage = [50640, 49436, 32, 44221, 51137, 32, 50864, 50948]"

definition sfx_disadvantage :: pystr where
  "sfx_disadvantage = [50640, 49436, 32, 44221, 51137, 32, 50676, 50948]"

definition sfx_risk_mgmt :: pystr where
  "sfx_risk_mgmt = [32, 47532, 49828, 53356, 32, 44288, 47532, 32, 54596, 50836]"

definition drv_tech :: pystr where
  "drv_tech = [44592, 49696, 51201, 32, 50669, 47049]"

definition drv_pm :: pystr where
  "drv_pm = [54532, 47196, 51229, 53944, 32, 44288, 47532, 32, 45733, 47141]"

definition drv_price :: pystr where
  "drv_price = [44032, 44201, 32, 44221, 51137, 47141]"

definition identify_key_drivers ::
  "EvaluationScore list \<Rightarrow> RiskFactor list \<Rightarrow> py_error + pystr list" where
  "identify_key_drivers scores risks =
     (case py_max_key (\<lambda>x. \<bar>weighted_score x\<bar>) scores of
        Inl e \<Rightarrow> Inl e
      | Inr top_score \<Rightarrow>
          (let drivers1 = (if weighted_score top_score > 0
                           then [criteria top_score @ sfx_advantage]
                           else [criteria top_score @ sfx_disadvantage]);
               high_risks = filter (\<lambda>r. severity r = SANG) risks;
               drivers2 = (case high_risks of
                             [] \<Rightarrow> drivers1
                           | r # _ \<Rightarrow> drivers1 @ [risk_type r @ sfx_risk_mgmt]);
               drivers3 = drivers2 @ [drv_tech, drv_pm, drv_price]
           in Inr (take 5 drivers3)))"

definition calculate_confidence :: "EvaluationScore list \<Rightarrow> RiskFactor list \<Rightarrow> rat" where
  "calculate_confidence scores risks =
     (let criteria_confidence = min 1 (of_nat (length scores) / 5);
          risk_confidence = max (3/10) (1 - of_nat (length risks) * (1/10));
          overall_confidence = (criteria_confidence + risk_confidence) / 2
      in min 1 (max 0 overall_confidence))"

definition create_default_result :: WinProbabilityResult where
  "create_default_result =
     \<lparr> overall_difficulty = JUNG,
       win_probability = 1/2,
       evaluation_scores = [],
       risk_factors = [],
       key_drivers = [],
       confidence_level = 0 \<rparr>"

text \<open>The body of the \<open>try\<close> block of \<open>calculate_win_probability\<close>.\<close>

definition win_probability_try ::
  "criteria_dict list \<Rightarrow> internal_match_dict \<Rightarrow> competitor_analysis_dict
     \<Rightarrow> risk_flag_dict list \<Rightarrow> py_error + WinProbabilityResult" where
  "win_probability_try crits im ca flags =
     (case calculate_evaluation_scores crits im ca of
        Inl e \<Rightarrow> Inl e
      | Inr scores \<Rightarrow>
          (let risks = analyze_risk_factors flags;
               total_score = sum_list (map weighted_score scores);
               risk_adjustment = calculate_risk_adjustment risks;
               adjusted_score = total_score * (1 - risk_adjustment);
               dp = determine_difficulty_and_probability adjusted_score risks
           in case identify_key_drivers scores risks of
                Inl e \<Rightarrow> Inl e
              | Inr drivers \<Rightarrow>
                  Inr \<lparr> overall_difficulty = fst dp,
                        win_probability = snd dp,
                        evaluation_scores = scores,
                        risk_factors = risks,
                        key_drivers = drivers,
                        confidence_level = calculate_confidence scores risks \<rparr>))"

text \<open>
  \<open>calculate_win_probability\<close>: every exception of the body is caught and answered
  with the default result.
\<close>

definition calculate_win_probability ::
  "criteria_dict list \<Rightarrow> internal_match_dict \<Rightarrow> competitor_analysis_dict
     \<Rightarrow> risk_flag_dict list \<Rightarrow> WinProbabilityResult" where
  "calculate_win_probability crits im ca flags =
     (case win_probability_try crits im ca flags of
        Inl e \<Rightarrow> create_default_result
      | Inr result \<Rightarrow> result)"

section \<open>Strategy synthesizer agent\<close>

text \<open>Gap sizes: severe, lacking.\<close>

definition gap_severe :: pystr where
  "gap_severe = [49900, 44033]"

definition gap_lacking :: pystr where
  "gap_lacking = [48512, 51313]"

text \<open>
  Action types: internal reinforcement, external partner, specification query, PoC
  proposal.
\<close>

definition act_internal :: pystr where
  "act_internal = [45236, 48512, 48372, 44053]"

definition act_partner :: pystr where
  "act_partner = [50808, 48512, 54028, 53944, 45320]"

definition act_spec_query :: pystr where
  "act_spec_query = [49828, 54169, 51656, 51032]"

definition act_poc :: pystr where
  "act_poc = [80, 111, 67, 51228, 50504]"

text \<open>
  Description suffixes (hire an expert, build a partnership, clarify the related
  requirements) and the two fixed descriptions (PoC of the core technology, improve the
  project management process).
\<close>

definition sfx_hire_expert :: pystr where
  "sfx_hire_expert = [32, 51204, 47928, 44032, 32, 50689, 51077]"

definition sfx_partnership :: pystr where
  "sfx_partnership = [32, 54028, 53944, 45320, 49901, 32, 44396, 52629]"

definition sfx_clarify :: pystr where
  "sfx_clarify = [32, 44288, 47144, 32, 50836, 44396, 49324, 54637, 32, 47749, 54869, 54868]"

definition desc_poc :: pystr where
  "desc_poc = [54645, 49900, 32, 44592, 49696, 32, 80, 111, 67, 32, 51228, 50504]"

definition desc_pm_process :: pystr where
  "desc_pm_process = [54532, 47196, 51229, 53944, 32, 44288, 47532, 32, 54532, 47196, 49464, 49828, 32, 44060, 49440]"

text \<open>Timelines (1-2 months, 2-3 months, 1 week, 2-4 weeks, 1 month) and costs.\<close>

definition tl_1_2_months :: pystr where
  "tl_1_2_months = [49, 45, 50, 44060, 50900]"

definition tl_2_3_months :: pystr where
  "tl_2_3_months = [50, 45, 51, 44060, 50900]"

definition tl_1_week :: pystr where
  "tl_1_week = [49, 51452]"

definition tl_2_4_weeks :: pystr where
  "tl_2_4_weeks = [50, 45, 52, 51452]"

definition tl_1_month :: pystr where
  "tl_1_month = [49, 44060, 50900]"

definition cost_high :: pystr where
  "cost_high = [45458, 51020]"

definition cost_medium :: pystr where
  "cost_medium = [51473, 44036]"

definition cost_low :: pystr where
  "cost_low = [45230, 51020]"

text \<open>The first loop of \<open>_generate_improvement_actions\<close>, over the skill gaps.\<close>

fun gap_actions_loop ::
  "SkillGap pyobj list \<Rightarrow> ImprovementAction list \<Rightarrow> py_error + ImprovementAction list" where
  "gap_actions_loop [] actions = Inr actions"
| "gap_actions_loop (gap # gaps) actions =
     (case getattr gap_size gap of
        Inl e \<Rightarrow> Inl e
      | Inr size_of_gap \<Rightarrow>
          if size_of_gap = gap_severe then
            (case getattr skill_area gap of
               Inl e \<Rightarrow> Inl e
             | Inr area \<Rightarrow>
                 gap_actions_loop gaps
                   (actions @ [\<lparr> action_type = act_internal,
                                  description = area @ sfx_hire_expert,
                                  priority = SANG,
                                  timeline = tl_1_2_months,
                                  cost_estimate = Some cost_high,
                                  success_probability = 8/10 \<rparr>]))
          else if size_of_gap = gap_lacking then
            (case getattr skill_area gap of
               Inl e \<Rightarrow> Inl e
             | Inr area \<Rightarrow>
                 gap_actions_loop gaps
                   (actions @ [\<lparr> action_type = act_partner,
                                  description = area @ sfx_partnership,
                                  priority = JUNG,
                                  timeline = tl_2_3_months,
                                  cost_estimate = Some cost_medium,
                                  success_probability = 7/10 \<rparr>]))
          else gap_actions_loop gaps actions)"

text \<open>The second loop, over the risk flags.\<close>

fun risk_actions_loop ::
  "RiskFlag pyobj list \<Rightarrow> ImprovementAction list \<Rightarrow> py_error + ImprovementAction list" where
  "risk_actions_loop [] actions = Inr actions"
| "risk_actions_loop (risk # risks) actions =
     (case getattr flag_severity risk of
        Inl e \<Rightarrow> Inl e
      | Inr sev \<Rightarrow>
          if sev = SANG then
            (case getattr flag_risk_type risk of
               Inl e \<Rightarrow> Inl e
             | Inr rt \<Rightarrow>
                 risk_actions_loop risks
                   (actions @ [\<lparr> action_type = act_spec_query,
                                  description = rt @ sfx_clarify,
                                  priority = SANG,
                                  timeline = tl_1_week,
                                  cost_estimate = Some cost_low,
                                  success_probability = 9/10 \<rparr>]))
          else risk_actions_loop risks actions)"

text \<open>The two actions every list is extended with.\<close>

definition generic_actions :: "ImprovementAction list" where
  "generic_actions =
     [\<lparr> action_type = act_poc,
        description = desc_poc,
        priority = JUNG,
        timeline = tl_2_4_weeks,
        cost_estimate = Some cost_medium,
        success_probability = 6/10 \<rparr>,
      \<lparr> action_type = act_internal,
        description = desc_pm_process,
        priority = HA,
        timeline = tl_1_month,
        cost_estimate = Some cost_low,
        success_probability = 8/10 \<rparr>]"

definition generate_improvement_actions ::
  "rfp_analysis_dict \<Rightarrow> internal_match_dict \<Rightarrow> win_probability_dict
     \<Rightarrow> py_error + ImprovementAction list" where
  "generate_improvement_actions rfp im wp =
     (case gap_actions_loop (get_or (imd_skill_gaps im) []) [] of
        Inl e \<Rightarrow> Inl e
      | Inr actions1 \<Rightarrow>
          (case risk_actions_loop (get_or (rad_risk_flags rfp) []) actions1 of
             Inl e \<Rightarrow> Inl e
           | Inr actions2 \<Rightarrow> Inr (take 8 (actions2 @ generic_actions))))"

text \<open>
  The improvement actions as the specification words them, to compare with the code:
  per skill gap one action when the gap is severe (internal reinforcement, priority
  high) or lacking (external partner, priority medium), per risk flag one action when
  its severity is high (specification query, priority high), then the generic actions;
  in this order, and the first 8 of them.
\<close>

definition spec_gap_action :: "SkillGap \<Rightarrow> ImprovementAction list" where
  "spec_gap_action gap =
     (if gap_size gap = gap_severe then
        [\<lparr> action_type = act_internal, description = skill_area gap @ sfx_hire_expert,
           priority = SANG, timeline = tl_1_2_months, cost_estimate = Some cost_high,
           success_probability = 8/10 \<rparr>]
      else if gap_size gap = gap_lacking then
        [\<lparr> action_type = act_partner, description = skill_area gap @ sfx_partnership,
           priority = JUNG, timeline = tl_2_3_months, cost_estimate = Some cost_medium,
           success_probability = 7/10 \<rparr>]
      else [])"

definition spec_risk_action :: "RiskFlag \<Rightarrow> ImprovementAction list" where
  "spec_risk_action risk =
     (if flag_severity risk = SANG then
        [\<lparr> action_type = act_spec_query, description = flag_risk_type risk @ sfx_clarify,
           priority = SANG, timeline = tl_1_week, cost_estimate = Some cost_low,
           success_probability = 9/10 \<rparr>]
      else [])"

definition spec_improvement_actions :: "SkillGap list \<Rightarrow> RiskFlag list \<Rightarrow> ImprovementAction list" where
  "spec_improvement_actions gaps risks =
     take 8 (concat (map spec_gap_action gaps) @ concat (map spec_risk_action risks)
             @ generic_actions)"

text \<open>
  SWOT texts. Fixed strengths: fast decision structure, flexible project management,
  innovative technical approach. Weakness suffix: capability lacking. Opportunities:
  growing digital transformation market, rising AI and cloud demand, entry into the
  small business market. Threats: stronger competition from large companies, pace of
  technical change, price pressure. Focus: tailored solutions, fast prototyping,
  competitive price.
\<close>

definition swot_fixed_strengths :: "pystr list" where
  "swot_fixed_strengths = [[48736, 47480, 32, 51032, 49324, 44208, 51221, 32, 44396, 51312], [50976, 50672, 54620, 32, 54532, 47196, 51229, 53944, 32, 44288, 47532], [54785, 49888, 51201, 51064, 32, 44592, 49696, 32, 51217, 44540]]"

definition sfx_capability_lacking :: pystr where
  "sfx_capability_lacking = [32, 50669, 47049, 32, 48512, 51313]"

definition swot_opportunities :: "pystr list" where
  "swot_opportunities = [[46356, 51648, 53560, 32, 51204, 54872, 32, 49884, 51109, 32, 54869, 45824], [65, 73, 47, 53364, 46972, 50864, 46300, 32, 49688, 50836, 32, 51613, 44032], [51473, 49548, 44592, 50629, 32, 49884, 51109, 32, 51652, 52636, 32, 44592, 54924]]"

definition swot_threats :: "pystr list" where
  "swot_threats = [[45824, 44592, 50629, 32, 44221, 51137, 32, 49900, 54868], [44592, 49696, 32, 48320, 54868, 32, 49549, 46020], [44032, 44201, 32, 44221, 51137, 32, 50517, 48149]]"

definition swot_strategic_focus :: "pystr list" where
  "swot_strategic_focus = [[44256, 44061, 32, 47582, 52644, 54805, 32, 49556, 47336, 49496], [48736, 47480, 32, 54532, 47196, 53664, 53440, 51060, 54609], [44221, 51137, 47141, 32, 51080, 45716, 32, 44032, 44201]]"

fun swot_weakness_loop :: "SkillGap pyobj list \<Rightarrow> pystr list \<Rightarrow> py_error + pystr list" where
  "swot_weakness_loop [] ws = Inr ws"
| "swot_weakness_loop (gap # gaps) ws =
     (case getattr gap_size gap of
        Inl e \<Rightarrow> Inl e
      | Inr size_of_gap \<Rightarrow>
          if size_of_gap \<in> set [gap_lacking, gap_severe] then
            (case getattr skill_area gap of
               Inl e \<Rightarrow> Inl e
             | Inr area \<Rightarrow> swot_weakness_loop gaps (ws @ [area @ sfx_capability_lacking]))
          else swot_weakness_loop gaps ws)"

definition synthesize_company_swot ::
  "internal_match_dict \<Rightarrow> competitor_analysis_dict \<Rightarrow> rfp_analysis_dict
     \<Rightarrow> py_error + CompanySWOT" where
  "synthesize_company_swot im ca rfp =
     (let ss = get_or (imd_our_advantages im) [] @ swot_fixed_strengths
      in case swot_weakness_loop (get_or (imd_skill_gaps im) [])
                (get_or (imd_our_disadvantages im) []) of
           Inl e \<Rightarrow> Inl e
         | Inr ws \<Rightarrow>
             Inr \<lparr> strengths = ss,
                   weaknesses = ws,
                   opportunities = swot_opportunities,
                   threats = swot_threats,
                   strategic_focus = swot_strategic_focus \<rparr>)"

text \<open>
  Differentiation texts. Evidence: past project successes, customer satisfaction of 95%
  or more, fast project completion rate; advantage: 30% faster completion than
  competitors. Default message: tailored solutions; flexible development process,
  transparent communication, continuous customer support; overall evaluation;
  customer centred approach.
\<close>

definition dm_evidence :: "pystr list" where
  "dm_evidence = [[44284, 44144, 32, 54532, 47196, 51229, 53944, 32, 49457, 44277, 32, 49324, 47168], [44256, 44061, 32, 47564, 51313, 46020, 32, 57, 53, 37, 32, 51060, 49345], [48736, 47480, 32, 54532, 47196, 51229, 53944, 32, 50756, 47308, 50984]]"

definition dm_advantage :: pystr where
  "dm_advantage = [44221, 51137, 49324, 32, 45824, 48708, 32, 51, 48, 37, 32, 48736, 47480, 32, 50756, 47308]"

definition dm_default :: DifferentiationMessage where
  "dm_default =
     \<lparr> key_point = [44256, 44061, 32, 47582, 52644, 54805, 32, 49556, 47336, 49496],
       supporting_evidence = [[50976, 50672, 54620, 32, 44060, 48156, 32, 54532, 47196, 49464, 49828], [53804, 47749, 54620, 32, 52964, 48036, 45768, 52992, 51060, 49496], [51648, 49549, 51201, 51064, 32, 44256, 44061, 32, 51648, 50896]],
       dm_evaluation_criteria = [51204, 52404, 32, 54217, 44032],
       competitive_advantage = [44256, 44061, 32, 51473, 49900, 51032, 32, 51217, 44540, 32, 48169, 49885] \<rparr>"

text \<open>The \<open>enumerate\<close> loop of \<open>_create_differentiation_messages\<close>, \<open>i\<close> its index.\<close>

fun differentiation_loop ::
  "nat \<Rightarrow> criteria_dict list \<Rightarrow> pystr list \<Rightarrow> DifferentiationMessage list
     \<Rightarrow> DifferentiationMessage list" where
  "differentiation_loop i [] points messages = messages"
| "differentiation_loop i (crit # rest) points messages =
     differentiation_loop (Suc i) rest points
       (if i < length points
        then messages @ [\<lparr> key_point = points ! i,
                            supporting_evidence = dm_evidence,
                            dm_evaluation_criteria = get_or (cd_item crit) Unknown,
                            competitive_advantage = dm_advantage \<rparr>]
        else messages)"

definition create_differentiation_messages ::
  "competitor_analysis_dict \<Rightarrow> rfp_analysis_dict \<Rightarrow> DifferentiationMessage list" where
  "create_differentiation_messages ca rfp =
     (let crits = get_or (rad_evaluation_criteria rfp) [];
          points = get_or (cad_differentiation_points ca) [];
          messages = differentiation_loop 0 (take 3 crits) points []
      in if messages = [] then [dm_default] else messages)"

text \<open>
  Recommendations by difficulty. Upper tier: hard project, approach with care; strengthen
  risk management and plan alternatives; strengthen the differentiation points. Middle
  tier: secure competitiveness by a balanced approach; concentrate on the core
  requirements; keep the price competitive. Lower tier: use our strengths to the full;
  move first by fast decisions; strengthen customer relations. Conditional: strategic
  investment to mend weaknesses; carry out the high priority actions at once.
\<close>

definition rec_high_difficulty :: "pystr list" where
  "rec_high_difficulty =
     [[45458, 51008, 32, 45212, 51060, 46020, 32, 54532, 47196, 51229, 53944, 32, 45, 32, 49888, 51473, 54620, 32, 51217, 44540, 32, 54596, 50836], [47532, 49828, 53356, 32, 44288, 47532, 32, 44053, 54868, 32, 48143, 32, 45824, 50504, 32, 44228, 54925, 32, 49688, 47549], [44221, 51137, 49324, 32, 45824, 48708, 32, 52264, 48324, 54868, 32, 54252, 51064, 53944, 32, 44053, 54868]]"

definition rec_medium_difficulty :: "pystr list" where
  "rec_medium_difficulty =
     [[44512, 54805, 51105, 55180, 32, 51217, 44540, 51004, 47196, 32, 44221, 51137, 47141, 32, 54869, 48372], [54645, 49900, 32, 50836, 44396, 49324, 54637, 32, 52649, 51313, 50640, 32, 51665, 51473], [44032, 44201, 32, 44221, 51137, 47141, 32, 50976, 51648]]"

definition rec_low_difficulty :: "pystr list" where
  "rec_low_difficulty =
     [[50864, 47532, 32, 44053, 51216, 51012, 32, 52572, 45824, 54620, 32, 54876, 50857], [48736, 47480, 32, 51032, 49324, 44208, 51221, 51004, 47196, 32, 49440, 51216, 32, 54952, 44284], [44256, 44061, 32, 44288, 44228, 32, 44053, 54868]]"

definition rec_invest :: pystr where
  "rec_invest = [50557, 51216, 32, 48372, 50756, 51012, 32, 50948, 54620, 32, 51204, 47029, 51201, 32, 53804, 51088, 32, 54596, 50836]"

definition rec_act_now :: pystr where
  "rec_act_now = [50864, 49440, 49692, 50948, 32, 45458, 51008, 32, 48372, 50756, 52293, 32, 51593, 49884, 32, 49892, 54665]"

definition generate_strategic_recommendations ::
  "ImprovementAction list \<Rightarrow> CompanySWOT \<Rightarrow> win_probability_dict \<Rightarrow> pystr list" where
  "generate_strategic_recommendations actions swot wp =
     (let difficulty = get_or (wpd_overall_difficulty wp) JUNG;
          recs1 = (if difficulty = SANG then rec_high_difficulty
                   else if difficulty = JUNG then rec_medium_difficulty
                   else rec_low_difficulty);
          recs2 = (if length (weaknesses swot) > length (strengths swot)
                   then recs1 @ [rec_invest] else recs1);
          high_priority_actions = filter (\<lambda>a. priority a = SANG) actions;
          recs3 = (if high_priority_actions \<noteq> [] then recs2 @ [rec_act_now] else recs2)
      in take 5 recs3)"

text \<open>
  Success factors: high internal readiness; strengths that set us apart from
  competitors; high win probability; then clear understanding of the requirements,
  effective project management, close cooperation with the customer, technical
  excellence, competitive proposal.
\<close>

definition sf_readiness :: pystr where
  "sf_readiness = [45458, 51008, 32, 45236, 48512, 32, 51456, 48708, 46020]"

definition sf_advantages :: pystr where
  "sf_advantages = [44221, 51137, 49324, 32, 45824, 48708, 32, 52264, 48324, 54868, 46108, 32, 44053, 51216]"

definition sf_win_probability :: pystr where
  "sf_win_probability = [45458, 51008, 32, 49688, 51452, 32, 54869, 47456]"

definition sf_generic :: "pystr list" where
  "sf_generic =
     [[47749, 54869, 54620, 32, 50836, 44396, 49324, 54637, 32, 51060, 54644], [54952, 44284, 51201, 51064, 32, 54532, 47196, 51229, 53944, 32, 44288, 47532], [44256, 44061, 44284, 51032, 32, 44596, 48128, 54620, 32, 54801, 47141], [44592, 49696, 51201, 32, 50864, 49688, 49457], [44221, 51137, 47141, 32, 51080, 45716, 32, 51228, 50504, 49436]]"

definition identify_success_factors ::
  "internal_match_dict \<Rightarrow> competitor_analysis_dict \<Rightarrow> win_probability_dict \<Rightarrow> pystr list" where
  "identify_success_factors im ca wp =
     (let readiness = get_or (imd_overall_readiness im) HA;
          f1 = (if readiness = SANG then [sf_readiness] else []);
          advantages = get_or (cad_our_advantages ca) [];
          f2 = (if advantages \<noteq> [] then f1 @ [sf_advantages] else f1);
          win_prob = get_or (wpd_win_probability wp) (1/2);
          f3 = (if win_prob > 6/10 then f2 @ [sf_win_probability] else f2)
      in take 7 (f3 @ sf_generic))"

definition create_default_synthesis :: StrategySynthesis where
  "create_default_synthesis =
     \<lparr> improvement_actions = [],
       company_swot = Some \<lparr> strengths = [], weaknesses = [], opportunities = [],
                            threats = [], strategic_focus = [] \<rparr>,
       differentiation_messages = [],
       strategic_recommendations = [],
       success_factors = [] \<rparr>"

text \<open>The body of the \<open>try\<close> block of \<open>synthesize_strategy\<close>.\<close>

definition synthesize_strategy_try ::
  "rfp_analysis_dict \<Rightarrow> internal_match_dict \<Rightarrow> competitor_analysis_dict
     \<Rightarrow> win_probability_dict \<Rightarrow> py_error + StrategySynthesis" where
  "synthesize_strategy_try rfp im ca wp =
     (case generate_improvement_actions rfp im wp of
        Inl e \<Rightarrow> Inl e
      | Inr actions \<Rightarrow>
          (case synthesize_company_swot im ca rfp of
             Inl e \<Rightarrow> Inl e
           | Inr swot \<Rightarrow>
               Inr \<lparr> improvement_actions = actions,
                     company_swot = Some swot,
                     differentiation_messages = create_differentiation_messages ca rfp,
                     strategic_recommendations =
                       generate_strategic_recommendations actions swot wp,
                     success_factors = identify_success_factors im ca wp \<rparr>))"

definition synthesize_strategy ::
  "rfp_analysis_dict \<Rightarrow> internal_match_dict \<Rightarrow> competitor_analysis_dict
     \<Rightarrow> win_probability_dict \<Rightarrow> StrategySynthesis" where
  "synthesize_strategy rfp im ca wp =
     (case synthesize_strategy_try rfp im ca wp of
        Inl e \<Rightarrow> create_default_synthesis
      | Inr result \<Rightarrow> result)"

text \<open>
  \<open>get_synthesis_summary\<close>: the sizes of the parts of a synthesis (numbers of actions,
  strengths, weaknesses, messages, recommendations and success factors). Reading
  \<open>company_swot.strengths\<close> raises when \<open>company_swot\<close> is \<open>None\<close>.
\<close>

definition get_synthesis_summary :: "StrategySynthesis \<Rightarrow> py_error + (pystr \<times> nat) list" where
  "get_synthesis_summary synthesis =
     (case company_swot synthesis of
        None \<Rightarrow> Inl AttributeError
      | Some swot \<Rightarrow>
          Inr [([48372, 50756, 52293, 95, 50529, 49496, 95, 49688], length (improvement_actions synthesis)),
               ([44053, 51216, 95, 49688], length (strengths swot)),
               ([50557, 51216, 95, 49688], length (weaknesses swot)),
               ([52264, 48324, 54868, 95, 47700, 49884, 51648, 95, 49688], length (differentiation_messages synthesis)),
               ([51204, 47029, 95, 44428, 44256, 49324, 54637, 95, 49688], length (strategic_recommendations synthesis)),
               ([49457, 44277, 95, 50836, 51064, 95, 49688], length (success_factors synthesis))])"

section \<open>Competitor intelligence agent\<close>

text \<open>
  One entry of the competitor database \<open>competitor_data\<close>, and the database itself
  (Samsung SDS, LG CNS, POSCO DX, KT, Hyundai AutoEver, Kakao, CJ OliveNetworks), keyed
  by company name in the order of the source.
\<close>

record competitor_entry =
  entry_portfolio :: "pystr list"
  entry_price_positioning :: pystr
  entry_tech_stack :: "pystr list"
  entry_partnerships :: "pystr list"
  entry_strengths :: "pystr list"
  entry_weaknesses :: "pystr list"
  entry_win_rate :: rat

definition competitor_data :: "(pystr \<times> competitor_entry) list" where
  "competitor_data =
   [
    ([49340, 49457, 32, 83, 68, 83],
     \<lparr> entry_portfolio = [[83, 73], [53364, 46972, 50864, 46300], [65, 73], [48372, 50504], [46356, 51648, 53560, 32, 53944, 47004, 49828, 54252, 47700, 51060, 49496]],
       entry_price_positioning = [54532, 47532, 48120, 50628],
       entry_tech_stack = [[83, 97, 109, 115, 117, 110, 103, 32, 67, 108, 111, 117, 100], [65, 73, 32, 80, 108, 97, 116, 102, 111, 114, 109], [83, 101, 99, 117, 114, 105, 116, 121, 32, 83, 111, 108, 117, 116, 105, 111, 110, 115]],
       entry_partnerships = [[77, 105, 99, 114, 111, 115, 111, 102, 116], [65, 87, 83], [71, 111, 111, 103, 108, 101, 32, 67, 108, 111, 117, 100]],
       entry_strengths = [[45824, 44592, 50629, 32, 44256, 44061, 32, 44592, 48152], [51333, 54633, 32, 73, 84, 32, 49436, 48708, 49828], [82, 38, 68, 32, 53804, 51088]],
       entry_weaknesses = [[45458, 51008, 32, 44032, 44201], [48373, 51105, 54620, 32, 51032, 49324, 44208, 51221, 32, 44396, 51312]],
       entry_win_rate = 3/4 \<rparr>),
    ([76, 71, 32, 67, 78, 83],
     \<lparr> entry_portfolio = [[83, 73], [53364, 46972, 50864, 46300], [65, 73], [73, 111, 84], [49828, 47560, 53944, 54057, 53664, 47532]],
       entry_price_positioning = [54364, 51456],
       entry_tech_stack = [[76, 71, 32, 67, 108, 111, 117, 100], [65, 73, 32, 80, 108, 97, 116, 102, 111, 114, 109], [73, 111, 84, 32, 83, 111, 108, 117, 116, 105, 111, 110, 115]],
       entry_partnerships = [[76, 71, 32, 69, 108, 101, 99, 116, 114, 111, 110, 105, 99, 115], [77, 105, 99, 114, 111, 115, 111, 102, 116], [83, 65, 80]],
       entry_strengths = [[51228, 51312, 50629, 32, 51204, 47928, 49457], [73, 111, 84, 32, 49556, 47336, 49496], [44544, 47196, 48268, 32, 45348, 53944, 50892, 53356]],
       entry_weaknesses = [[51228, 54620, 46108, 32, 49828, 53440, 53944, 50629, 32, 44221, 54744], [45458, 51008, 32, 51032, 51316, 46020]],
       entry_win_rate = 17/25 \<rparr>),
    ([54252, 49828, 53076, 68, 88],
     \<lparr> entry_portfolio = [[51228, 51312, 50629, 32, 83, 73], [49828, 47560, 53944, 54057, 53664, 47532], [65, 73], [45936, 51060, 53552, 32, 48516, 49437]],
       entry_price_positioning = [54364, 51456],
       entry_tech_stack = [[80, 79, 83, 67, 79, 32, 65, 73], [83, 109, 97, 114, 116, 32, 70, 97, 99, 116, 111, 114, 121, 32, 80, 108, 97, 116, 102, 111, 114, 109], [68, 97, 116, 97, 32, 65, 110, 97, 108, 121, 116, 105, 99, 115]],
       entry_partnerships = [[80, 79, 83, 67, 79], [77, 105, 99, 114, 111, 115, 111, 102, 116], [83, 105, 101, 109, 101, 110, 115]],
       entry_strengths = [[51228, 51312, 50629, 32, 51204, 47928, 49457], [49828, 47560, 53944, 54057, 53664, 47532], [45936, 51060, 53552, 32, 48516, 49437]],
       entry_weaknesses = [[51228, 51312, 50629, 32, 54620, 51221], [49888, 44508, 32, 44592, 49696, 32, 48512, 51313]],
       entry_win_rate = 18/25 \<rparr>),
    ([75, 84],
     \<lparr> entry_portfolio = [[53685, 49888], [53364, 46972, 50864, 46300], [65, 73], [73, 111, 84], [53, 71]],
       entry_price_positioning = [54364, 51456],
       entry_tech_stack = [[75, 84, 32, 67, 108, 111, 117, 100], [65, 73, 32, 80, 108, 97, 116, 102, 111, 114, 109], [53, 71, 32, 78, 101, 116, 119, 111, 114, 107]],
       entry_partnerships = [[75, 84, 38, 71], [83, 97, 109, 115, 117, 110, 103], [76, 71]],
       entry_strengths = [[53685, 49888, 32, 51064, 54532, 46972], [53, 71, 32, 44592, 49696], [53364, 46972, 50864, 46300, 32, 49436, 48708, 49828]],
       entry_weaknesses = [[53685, 49888, 50629, 32, 51473, 49900], [83, 73, 32, 44221, 54744, 32, 48512, 51313]],
       entry_win_rate = 13/20 \<rparr>),
    ([54788, 45824, 32, 50724, 53664, 50640, 48260],
     \<lparr> entry_portfolio = [[51088, 46041, 52264, 32, 83, 73], [65, 73], [51088, 50984, 51452, 54665], [73, 111, 84]],
       entry_price_positioning = [54532, 47532, 48120, 50628],
       entry_tech_stack = [[72, 121, 117, 110, 100, 97, 105, 32, 65, 73], [65, 117, 116, 111, 110, 111, 109, 111, 117, 115, 32, 68, 114, 105, 118, 105, 110, 103], [73, 111, 84, 32, 80, 108, 97, 116, 102, 111, 114, 109]],
       entry_partnerships = [[72, 121, 117, 110, 100, 97, 105, 32, 77, 111, 116, 111, 114], [75, 105, 97], [65, 112, 116, 105, 118]],
       entry_strengths = [[51088, 46041, 52264, 32, 51204, 47928, 49457], [51088, 50984, 51452, 54665, 32, 44592, 49696], [44544, 47196, 48268, 32, 45348, 53944, 50892, 53356]],
       entry_weaknesses = [[51088, 46041, 52264, 50629, 32, 54620, 51221], [45458, 51008, 32, 44032, 44201]],
       entry_win_rate = 39/50 \<rparr>),
    ([52852, 52852, 50724],
     \<lparr> entry_portfolio = [[54540, 47019, 54268], [65, 73], [53364, 46972, 50864, 46300], [47784, 48148, 51068], [53080, 53584, 52768]],
       entry_price_positioning = [54364, 51456],
       entry_tech_stack = [[75, 97, 107, 97, 111, 32, 67, 108, 111, 117, 100], [65, 73, 32, 80, 108, 97, 116, 102, 111, 114, 109], [75, 97, 107, 97, 111, 84, 97, 108, 107, 32, 65, 80, 73]],
       entry_partnerships = [[75, 97, 107, 97, 111, 66, 97, 110, 107], [75, 97, 107, 97, 111, 80, 97, 121], [75, 97, 107, 97, 111, 77, 111, 98, 105, 108, 105, 116, 121]],
       entry_strengths = [[54540, 47019, 54268, 32, 44221, 54744], [65, 73, 32, 44592, 49696], [49324, 50857, 51088, 32, 52828, 54868, 51201]],
       entry_weaknesses = [[66, 50, 66, 32, 44221, 54744, 32, 48512, 51313], [45824, 44592, 50629, 32, 44256, 44061, 32, 48512, 51313]],
       entry_win_rate = 31/50 \<rparr>),
    ([67, 74, 32, 50732, 47532, 48652, 45348, 53944, 50893, 49828],
     \<lparr> entry_portfolio = [[83, 73], [53364, 46972, 50864, 46300], [65, 73], [45936, 51060, 53552, 32, 48516, 49437], [47560, 52992, 54021]],
       entry_price_positioning = [54364, 51456],
       entry_tech_stack = [[67, 74, 32, 67, 108, 111, 117, 100], [65, 73, 32, 80, 108, 97, 116, 102, 111, 114, 109], [77, 97, 114, 107, 101, 116, 105, 110, 103, 32, 65, 110, 97, 108, 121, 116, 105, 99, 115]],
       entry_partnerships = [[67, 74, 32, 71, 114, 111, 117, 112], [77, 105, 99, 114, 111, 115, 111, 102, 116], [71, 111, 111, 103, 108, 101]],
       entry_strengths = [[47560, 52992, 54021, 32, 51204, 47928, 49457], [45936, 51060, 53552, 32, 48516, 49437], [67, 74, 32, 44536, 47353, 32, 51648, 50896]],
       entry_weaknesses = [[51228, 54620, 46108, 32, 44592, 49696, 47141], [45458, 51008, 32, 51032, 51316, 46020]],
       entry_win_rate = 29/50 \<rparr>)
   ]"

text \<open>\<open>needle in haystack\<close> on strings: \<open>needle\<close> occurs as a contiguous piece.\<close>

fun starts_with :: "pystr \<Rightarrow> pystr \<Rightarrow> bool" where
  "starts_with [] ys = True"
| "starts_with (x # xs) [] = False"
| "starts_with (x # xs) (y # ys) = (x = y \<and> starts_with xs ys)"

fun str_contains :: "pystr \<Rightarrow> pystr \<Rightarrow> bool" where
  "str_contains [] needle = (needle = [])"
| "str_contains (y # ys) needle = (starts_with needle (y # ys) \<or> str_contains ys needle)"

text \<open>
  Texts of the competitor agent: the suffix "related market expansion"; the threats (new
  competitors entering, pace of technical change, fiercer price competition); the sample
  win history; our advantages and disadvantages; the differentiation points.
\<close>

definition sfx_market_expansion :: pystr where
  "sfx_market_expansion = [32, 44288, 47144, 32, 49884, 51109, 32, 54869, 45824]"

definition competitor_threats :: "pystr list" where
  "competitor_threats = [[49888, 44508, 32, 44221, 51137, 49324, 32, 51652, 51077], [44592, 49696, 32, 48320, 54868, 32, 49549, 46020], [44032, 44201, 32, 44221, 51137, 32, 49900, 54868]]"

definition get_win_history :: "pystr \<Rightarrow> (pystr \<times> pystr) list list" where
  "get_win_history competitor =
     [[([112, 114, 111, 106, 101, 99, 116], [65, 49324, 32, 53364, 46972, 50864, 46300, 32, 44396, 52629]), ([121, 101, 97, 114], [50, 48, 50, 51]), ([118, 97, 108, 117, 101], [53, 48, 50613, 50896])],
      [([112, 114, 111, 106, 101, 99, 116], [66, 49324, 32, 65, 73, 32, 54540, 47019, 54268]), ([121, 101, 97, 114], [50, 48, 50, 51]), ([118, 97, 108, 117, 101], [51, 48, 50613, 50896])],
      [([112, 114, 111, 106, 101, 99, 116], [67, 49324, 32, 46356, 51648, 53560, 32, 51204, 54872]), ([121, 101, 97, 114], [50, 48, 50, 50]), ([118, 97, 108, 117, 101], [56, 48, 50613, 50896])]]"

definition fixed_our_advantages :: "pystr list" where
  "fixed_our_advantages =
     [[48736, 47480, 32, 51032, 49324, 44208, 51221], [50976, 50672, 54620, 32, 54532, 47196, 51229, 53944, 32, 44288, 47532], [54785, 49888, 51201, 51064, 32, 44592, 49696, 32, 51217, 44540], [44221, 51137, 47141, 32, 51080, 45716, 32, 44032, 44201]]"

definition fixed_our_disadvantages :: "pystr list" where
  "fixed_our_disadvantages =
     [[45824, 44592, 50629, 32, 44256, 44061, 32, 44592, 48152, 32, 48512, 51313], [44544, 47196, 48268, 32, 45348, 53944, 50892, 53356, 32, 51228, 54620], [82, 38, 68, 32, 53804, 51088, 32, 44508, 47784], [48652, 47004, 46300, 32, 51064, 51648, 46020]]"

definition fixed_differentiation_points :: "pystr list" where
  "fixed_differentiation_points =
     [[44256, 44061, 32, 47582, 52644, 54805, 32, 49556, 47336, 49496], [48736, 47480, 32, 54532, 47196, 53664, 53440, 51060, 54609], [50528, 51088, 51068, 32, 44060, 48156, 32, 48169, 48277, 47200], [53804, 47749, 54620, 32, 52964, 48036, 45768, 52992, 51060, 49496], [44221, 51137, 47141, 32, 51080, 45716, 32, 44032, 44201]]"

text \<open>
  \<open>_create_competitor_profile\<close>, for a name with the database entry \<open>entry\<close>.
  \<open>str.lower\<close> belongs to the Python library and is the parameter \<open>lower\<close>.
\<close>

definition create_competitor_profile ::
  "(pystr \<Rightarrow> pystr) \<Rightarrow> pystr \<Rightarrow> competitor_entry \<Rightarrow> pystr list \<Rightarrow> CompetitorProfile" where
  "create_competitor_profile lower competitor entry reqs =
     \<lparr> company_name = competitor,
       portfolio = filter (\<lambda>item. list_ex (\<lambda>req. str_contains (lower item) (lower req)) reqs)
                     (entry_portfolio entry),
       win_history = get_win_history competitor,
       price_positioning = entry_price_positioning entry,
       tech_stack = entry_tech_stack entry,
       partnerships = entry_partnerships entry,
       cp_strengths = entry_strengths entry,
       cp_weaknesses = entry_weaknesses entry,
       cp_opportunities = map (\<lambda>req. req @ sfx_market_expansion) (take 3 reqs),
       cp_threats = competitor_threats \<rparr>"

text \<open>The profile loop of \<open>analyze_competitors\<close>: names outside the database are skipped.\<close>

fun competitor_profiles_loop ::
  "(pystr \<Rightarrow> pystr) \<Rightarrow> pystr list \<Rightarrow> pystr list \<Rightarrow> CompetitorProfile list" where
  "competitor_profiles_loop lower [] reqs = []"
| "competitor_profiles_loop lower (competitor # rest) reqs =
     (case map_of competitor_data competitor of
        None \<Rightarrow> competitor_profiles_loop lower rest reqs
      | Some entry \<Rightarrow>
          create_competitor_profile lower competitor entry reqs
            # competitor_profiles_loop lower rest reqs)"

text \<open>\<open>d[k] = v\<close> on a dict given as the list of its items, in insertion order.\<close>

fun dict_set :: "('k \<times> 'v) list \<Rightarrow> 'k \<Rightarrow> 'v \<Rightarrow> ('k \<times> 'v) list" where
  "dict_set [] k v = [(k, v)]"
| "dict_set ((k', v') # d) k v = (if k' = k then (k, v) # d else (k', v') # dict_set d k v)"

definition analyze_market_positioning :: "CompetitorProfile list \<Rightarrow> (pystr \<times> pystr) list" where
  "analyze_market_positioning profiles =
     foldl (\<lambda>positioning profile.
              dict_set positioning (company_name profile) (price_positioning profile))
       [] profiles"

text \<open>
  \<open>analyze_competitors\<close>. Nothing in its \<open>try\<close> block raises on a list of names and
  a list of requirement texts, so its handler (the default analysis) is not modelled.
\<close>

definition analyze_competitors ::
  "(pystr \<Rightarrow> pystr) \<Rightarrow> pystr list \<Rightarrow> pystr list \<Rightarrow> CompetitiveAnalysis" where
  "analyze_competitors lower competitors reqs =
     (let profiles = competitor_profiles_loop lower competitors reqs
      in \<lparr> competitor_profiles = profiles,
           our_advantages = fixed_our_advantages,
           our_disadvantages = fixed_our_disadvantages,
           differentiation_points = fixed_differentiation_points,
           market_positioning = analyze_market_positioning profiles \<rparr>)"

section \<open>Orchestrator\<close>

text \<open>
  JSON values: what \<open>json.dumps\<close> writes and \<open>json.loads\<close> reads back. The text
  between the two is the library's and is identified with the value it denotes.
\<close>

datatype json =
    JNull
  | JInt int
  | JNum rat
  | JStr pystr
  | JList "json list"
  | JDict "(pystr \<times> json) list"

record AnalysisPipelineResult =
  rfp_analysis :: RFPAnalysisResult
  internal_match :: InternalMatchResult
  competitor_analysis :: CompetitiveAnalysis
  apr_win_probability :: WinProbabilityResult
  strategy_synthesis :: StrategySynthesis
  execution_summary :: "(pystr \<times> json) list"

text \<open>
  The collaborators outside the modelled code: the RFP understanding agent and the
  internal RAG agent (both call a language model) and the library's \<open>str.lower\<close>.
  \<open>Inl\<close> is an exception that reaches the orchestrator's \<open>try\<close> block while the
  stage runs.
\<close>

record collaborators =
  analyze_rfp :: "pystr \<Rightarrow> py_error + RFPAnalysisResult"
  match_requirements :: "pystr list \<Rightarrow> py_error + InternalMatchResult"
  str_lower :: "pystr \<Rightarrow> pystr"

definition default_competitors :: "pystr list" where
  "default_competitors =
     [[49340, 49457, 32, 83, 68, 83], [76, 71, 32, 67, 78, 83], [54252, 49828, 53076, 68, 88], [75, 84], [54788, 45824, 32, 50724, 53664, 50640, 48260], [52852, 52852, 50724], [67, 74, 32, 50732, 47532, 48652, 45348, 53944, 50893, 49828]]"

text \<open>
  \<open>dataclasses.asdict\<close>, as far as the agents read its result: every field becomes a
  key that is present, and every nested dataclass instance becomes a dict.
\<close>

definition asdict_criteria :: "EvaluationCriteria \<Rightarrow> criteria_dict" where
  "asdict_criteria c = \<lparr> cd_item = Some (ec_item c), cd_weight = Some (ec_weight c) \<rparr>"

definition asdict_risk_flag :: "RiskFlag \<Rightarrow> risk_flag_dict" where
  "asdict_risk_flag r =
     \<lparr> rfd_risk_type = Some (flag_risk_type r),
       rfd_severity = Some (flag_severity r),
       rfd_mitigation = flag_mitigation r \<rparr>"

definition asdict_internal_match :: "InternalMatchResult \<Rightarrow> internal_match_dict" where
  "asdict_internal_match m =
     \<lparr> imd_overall_readiness = Some (overall_readiness m),
       imd_confidence_score = Some (confidence_score m),
       imd_skill_gaps = Some (map AsDict (skill_gaps m)),
       imd_our_advantages = None,
       imd_our_disadvantages = None \<rparr>"

definition asdict_competitive_analysis :: "CompetitiveAnalysis \<Rightarrow> competitor_analysis_dict" where
  "asdict_competitive_analysis a =
     \<lparr> cad_competitor_profiles = Some (map AsDict (competitor_profiles a)),
       cad_our_advantages = Some (our_advantages a),
       cad_differentiation_points = Some (differentiation_points a) \<rparr>"

definition asdict_rfp_analysis :: "RFPAnalysisResult \<Rightarrow> rfp_analysis_dict" where
  "asdict_rfp_analysis r =
     \<lparr> rad_risk_flags = Some (map AsDict (risk_flags r)),
       rad_evaluation_criteria = Some (map asdict_criteria (evaluation_criteria r)) \<rparr>"

definition asdict_win_probability :: "WinProbabilityResult \<Rightarrow> win_probability_dict" where
  "asdict_win_probability w =
     \<lparr> wpd_overall_difficulty = Some (overall_difficulty w),
       wpd_win_probability = Some (win_probability w) \<rparr>"

definition generate_execution_summary ::
  "RFPAnalysisResult \<Rightarrow> InternalMatchResult \<Rightarrow> CompetitiveAnalysis \<Rightarrow> WinProbabilityResult
     \<Rightarrow> StrategySynthesis \<Rightarrow> (pystr \<times> json) list" where
  "generate_execution_summary rfp im ca wp ss =
     [([101, 120, 101, 99, 117, 116, 105, 111, 110, 95, 116, 105, 109, 101], JStr [48516, 49437, 32, 50756, 47308]),
      ([116, 111, 116, 97, 108, 95, 114, 101, 113, 117, 105, 114, 101, 109, 101, 110, 116, 115], JInt (int (length (requirements rfp)))),
      ([116, 111, 116, 97, 108, 95, 99, 111, 109, 112, 101, 116, 105, 116, 111, 114, 115], JInt (int (length (competitor_profiles ca)))),
      ([116, 111, 116, 97, 108, 95, 114, 105, 115, 107, 115], JInt (int (length (risk_flags rfp)))),
      ([111, 118, 101, 114, 97, 108, 108, 95, 100, 105, 102, 102, 105, 99, 117, 108, 116, 121], JStr (overall_difficulty wp)),
      ([119, 105, 110, 95, 112, 114, 111, 98, 97, 98, 105, 108, 105, 116, 121], JNum (win_probability wp)),
      ([99, 111, 110, 102, 105, 100, 101, 110, 99, 101, 95, 108, 101, 118, 101, 108], JNum (confidence_level wp)),
      ([107, 101, 121, 95, 114, 101, 99, 111, 109, 109, 101, 110, 100, 97, 116, 105, 111, 110, 115], JInt (int (length (strategic_recommendations ss))))]"

text \<open>\<open>_create_error_result\<close>; the summary's text says that the analysis run failed.\<close>

definition create_error_result :: AnalysisPipelineResult where
  "create_error_result =
     \<lparr> rfp_analysis =
         \<lparr> requirements = [], evaluation_criteria = [], risk_flags = [],
           rfp_timeline = None, budget_range = None, submission_format = None \<rparr>,
       internal_match =
         \<lparr> project_matches = [], skill_gaps = [], references = [],
           overall_readiness = HA, confidence_score = 0 \<rparr>,
       competitor_analysis =
         \<lparr> competitor_profiles = [], our_advantages = [], our_disadvantages = [],
           differentiation_points = [], market_positioning = [] \<rparr>,
       apr_win_probability =
         \<lparr> overall_difficulty = JUNG, win_probability = 1/2,
           evaluation_scores = [], risk_factors = [], key_drivers = [],
           confidence_level = 0 \<rparr>,
       strategy_synthesis =
         \<lparr> improvement_actions = [], company_swot = None,
           differentiation_messages = [], strategic_recommendations = [],
           success_factors = [] \<rparr>,
       execution_summary = [([101, 114, 114, 111, 114], JStr [48516, 49437, 32, 49892, 54665, 32, 49892, 54056])] \<rparr>"

text \<open>
  The body of the \<open>try\<close> block of \<open>run_full_analysis\<close>, on the competitor list in
  use. The progress display is left out.
\<close>

definition run_full_analysis_try ::
  "collaborators \<Rightarrow> pystr \<Rightarrow> pystr list \<Rightarrow> py_error + AnalysisPipelineResult" where
  "run_full_analysis_try col rfp_content competitors =
     (case analyze_rfp col rfp_content of
        Inl e \<Rightarrow> Inl e
      | Inr rfp \<Rightarrow>
          (let reqs = map req_description (requirements rfp)
           in case match_requirements col reqs of
                Inl e \<Rightarrow> Inl e
              | Inr im \<Rightarrow>
                  (let ca = analyze_competitors (str_lower col) competitors reqs;
                       wp = calculate_win_probability
                              (map asdict_criteria (evaluation_criteria rfp))
                              (asdict_internal_match im)
                              (asdict_competitive_analysis ca)
                              (map asdict_risk_flag (risk_flags rfp));
                       ss = synthesize_strategy
                              (asdict_rfp_analysis rfp)
                              (asdict_internal_match im)
                              (asdict_competitive_analysis ca)
                              (asdict_win_probability wp)
                   in Inr \<lparr> rfp_analysis = rfp,
                            internal_match = im,
                            competitor_analysis = ca,
                            apr_win_probability = wp,
                            strategy_synthesis = ss,
                            execution_summary =
                              generate_execution_summary rfp im ca wp ss \<rparr>)))"

text \<open>
  \<open>run_full_analysis\<close>: \<open>competitors\<close> is \<open>None\<close> when the argument is left out,
  and only then is the default list taken.
\<close>

definition competitors_or_default :: "pystr list option \<Rightarrow> pystr list" where
  "competitors_or_default competitors =
     (case competitors of None \<Rightarrow> default_competitors | Some cs \<Rightarrow> cs)"

definition run_full_analysis ::
  "collaborators \<Rightarrow> pystr \<Rightarrow> pystr list option \<Rightarrow> AnalysisPipelineResult" where
  "run_full_analysis col rfp_content competitors =
     (case run_full_analysis_try col rfp_content (competitors_or_default competitors) of
        Inl e \<Rightarrow> create_error_result
      | Inr result \<Rightarrow> result)"

text \<open>\<open>str.isspace\<close> of one code point, and \<open>str.strip()\<close>.\<close>

definition py_isspace :: "nat \<Rightarrow> bool" where
  "py_isspace c \<longleftrightarrow>
     (9 \<le> c \<and> c \<le> 13) \<or> (28 \<le> c \<and> c \<le> 32) \<or> c = 133 \<or> c = 160 \<or> c = 5760
     \<or> (8192 \<le> c \<and> c \<le> 8202) \<or> c = 8232 \<or> c = 8233 \<or> c = 8239 \<or> c = 8287
     \<or> c = 12288"

definition py_strip :: "pystr \<Rightarrow> pystr" where
  "py_strip s = rev (dropWhile py_isspace (rev (dropWhile py_isspace s)))"

record validation_result =
  is_valid :: bool
  errors :: "pystr list"
  warnings :: "pystr list"

text \<open>
  The messages of \<open>validate_inputs\<close>: "The RFP content is too short. At least 100
  characters are needed."; "The competitor list is empty. The default list is used.";
  "There are too many competitors. Only the top 10 are analysed."
\<close>

definition msg_rfp_too_short :: pystr where
  "msg_rfp_too_short = [82, 70, 80, 32, 45236, 50857, 51060, 32, 45320, 47924, 32, 51687, 49845, 45768, 45796, 46, 32, 52572, 49548, 32, 49, 48, 48, 51088, 32, 51060, 49345, 32, 54596, 50836, 54633, 45768, 45796, 46]"

definition msg_competitors_empty :: pystr where
  "msg_competitors_empty = [44221, 51137, 49324, 32, 47785, 47197, 51060, 32, 48708, 50612, 51080, 49845, 45768, 45796, 46, 32, 44592, 48376, 32, 47785, 47197, 51012, 32, 49324, 50857, 54633, 45768, 45796, 46]"

definition msg_competitors_too_many :: pystr where
  "msg_competitors_too_many = [44221, 51137, 49324, 44032, 32, 45320, 47924, 32, 47566, 49845, 45768, 45796, 46, 32, 49345, 50948, 32, 49, 48, 44060, 47564, 32, 48516, 49437, 54633, 45768, 45796, 46]"

text \<open>
  \<open>validate_inputs\<close>. It returns the verdict and the messages only: the competitor
  list itself is not returned. With \<open>None\<close> for the list, \<open>len(competitors)\<close> raises.
\<close>

definition validate_inputs :: "pystr \<Rightarrow> pystr list option \<Rightarrow> py_error + validation_result" where
  "validate_inputs rfp_content competitors =
     (let v0 = \<lparr> is_valid = True, errors = [], warnings = [] \<rparr>;
          v1 = (if rfp_content = [] \<or> length (py_strip rfp_content) < 100
                then v0\<lparr> errors := errors v0 @ [msg_rfp_too_short], is_valid := False \<rparr>
                else v0)
      in case competitors of
           None \<Rightarrow> Inl TypeError
         | Some cs \<Rightarrow>
             (let v2 = (if cs = [] \<or> length cs = 0
                        then v1\<lparr> warnings := warnings v1 @ [msg_competitors_empty] \<rparr>
                        else v1);
                  v3 = (if length cs > 10
                        then v2\<lparr> warnings := warnings v2 @ [msg_competitors_too_many] \<rparr>
                        else v2)
              in Inr v3))"

subsection \<open>Summary and export\<close>

text \<open>
  The format \<open>.1%\<close> of a number: one hundred times the number with one digit after
  the point, rounded half to even, and a percent sign.
\<close>

definition round_half_even :: "rat \<Rightarrow> int" where
  "round_half_even x =
     (let f = \<lfloor>x\<rfloor>; d = x - of_int f
      in if d < 1/2 then f
         else if d > 1/2 then f + 1
         else if even f then f else f + 1)"

function str_of_nat :: "nat \<Rightarrow> pystr" where
  "str_of_nat n = (if n < 10 then [48 + n] else str_of_nat (n div 10) @ [48 + n mod 10])"
  by pat_completeness auto
termination
  by (relation "measure id") auto

declare str_of_nat.simps [simp del]

definition format_percent_1 :: "rat \<Rightarrow> pystr" where
  "format_percent_1 x =
     (let n = nat (round_half_even (\<bar>x\<bar> * 1000))
      in (if x < 0 then [45] else []) @ str_of_nat (n div 10) @ [46]
           @ str_of_nat (n mod 10) @ [37])"

text \<open>
  \<open>get_analysis_summary\<close>. The RFP analysis has no \<open>title\<close> attribute, so the
  title is always the fixed text "RFP analysis". The keys are: project title, win
  difficulty, win probability, and the numbers of requirements, competitors, risks and
  improvement actions, and the overall readiness.
\<close>

definition get_analysis_summary :: "AnalysisPipelineResult \<Rightarrow> (pystr \<times> json) list" where
  "get_analysis_summary result =
     [([54532, 47196, 51229, 53944, 95, 51228, 47785], JStr [82, 70, 80, 32, 48516, 49437]),
      ([49688, 51452, 95, 45212, 51060, 46020], JStr (overall_difficulty (apr_win_probability result))),
      ([49688, 51452, 95, 54869, 47456], JStr (format_percent_1 (win_probability (apr_win_probability result)))),
      ([50836, 44396, 49324, 54637, 95, 49688], JInt (int (length (requirements (rfp_analysis result))))),
      ([44221, 51137, 49324, 95, 49688], JInt (int (length (competitor_profiles (competitor_analysis result))))),
      ([47532, 49828, 53356, 95, 49688], JInt (int (length (risk_flags (rfp_analysis result))))),
      ([48372, 50756, 52293, 95, 49688], JInt (int (length (improvement_actions (strategy_synthesis result))))),
      ([51204, 52404, 95, 51456, 48708, 46020], JStr (overall_readiness (internal_match result)))]"

text \<open>\<open>asdict\<close> of the whole result, as the JSON value that \<open>json.dumps\<close> writes.\<close>

definition json_strs :: "pystr list \<Rightarrow> json" where
  "json_strs xs = JList (map JStr xs)"

definition json_opt_str :: "pystr option \<Rightarrow> json" where
  "json_opt_str x = (case x of None \<Rightarrow> JNull | Some s \<Rightarrow> JStr s)"

definition json_str_dict :: "(pystr \<times> pystr) list \<Rightarrow> json" where
  "json_str_dict d = JDict (map (\<lambda>(k, v). (k, JStr v)) d)"

definition json_requirement :: "Requirement \<Rightarrow> json" where
  "json_requirement r =
     JDict [([99, 97, 116, 101, 103, 111, 114, 121], JStr (req_category r)),
            ([100, 101, 115, 99, 114, 105, 112, 116, 105, 111, 110], JStr (req_description r)),
            ([112, 114, 105, 111, 114, 105, 116, 121], JStr (req_priority r)),
            ([99, 111, 109, 112, 108, 101, 120, 105, 116, 121], JStr (req_complexity r))]"

definition json_criteria :: "EvaluationCriteria \<Rightarrow> json" where
  "json_criteria c =
     JDict [([105, 116, 101, 109], JStr (ec_item c)),
            ([119, 101, 105, 103, 104, 116], JNum (ec_weight c)),
            ([109, 105, 110, 95, 115, 99, 111, 114, 101], (case ec_min_score c of None \<Rightarrow> JNull | Some m \<Rightarrow> JNum m)),
            ([101, 118, 97, 108, 117, 97, 116, 105, 111, 110, 95, 116, 121, 112, 101], JStr (ec_evaluation_type c)),
            ([100, 101, 115, 99, 114, 105, 112, 116, 105, 111, 110], JStr (ec_description c))]"

definition json_risk_flag :: "RiskFlag \<Rightarrow> json" where
  "json_risk_flag r =
     JDict [([114, 105, 115, 107, 95, 116, 121, 112, 101], JStr (flag_risk_type r)),
            ([100, 101, 115, 99, 114, 105, 112, 116, 105, 111, 110], JStr (flag_description r)),
            ([115, 101, 118, 101, 114, 105, 116, 121], JStr (flag_severity r)),
            ([109, 105, 116, 105, 103, 97, 116, 105, 111, 110], json_opt_str (flag_mitigation r))]"

definition json_rfp_analysis :: "RFPAnalysisResult \<Rightarrow> json" where
  "json_rfp_analysis r =
     JDict [([114, 101, 113, 117, 105, 114, 101, 109, 101, 110, 116, 115], JList (map json_requirement (requirements r))),
            ([101, 118, 97, 108, 117, 97, 116, 105, 111, 110, 95, 99, 114, 105, 116, 101, 114, 105, 97], JList (map json_criteria (evaluation_criteria r))),
            ([114, 105, 115, 107, 95, 102, 108, 97, 103, 115], JList (map json_risk_flag (risk_flags r))),
            ([116, 105, 109, 101, 108, 105, 110, 101], json_opt_str (rfp_timeline r)),
            ([98, 117, 100, 103, 101, 116, 95, 114, 97, 110, 103, 101], json_opt_str (budget_range r)),
            ([115, 117, 98, 109, 105, 115, 115, 105, 111, 110, 95, 102, 111, 114, 109, 97, 116], json_opt_str (submission_format r))]"

definition json_project_match :: "ProjectMatch \<Rightarrow> json" where
  "json_project_match m =
     JDict [([112, 114, 111, 106, 101, 99, 116, 95, 105, 100], JStr (project_id m)),
            ([112, 114, 111, 106, 101, 99, 116, 95, 110, 97, 109, 101], JStr (pm_project_name m)),
            ([115, 105, 109, 105, 108, 97, 114, 105, 116, 121, 95, 115, 99, 111, 114, 101], JNum (similarity_score m)),
            ([109, 97, 116, 99, 104, 105, 110, 103, 95, 114, 101, 113, 117, 105, 114, 101, 109, 101, 110, 116, 115], json_strs (matching_requirements m)),
            ([115, 117, 99, 99, 101, 115, 115, 95, 102, 97, 99, 116, 111, 114, 115], json_strs (pm_success_factors m)),
            ([108, 101, 115, 115, 111, 110, 115, 95, 108, 101, 97, 114, 110, 101, 100], json_strs (lessons_learned m))]"

definition json_skill_gap :: "SkillGap \<Rightarrow> json" where
  "json_skill_gap g =
     JDict [([115, 107, 105, 108, 108, 95, 97, 114, 101, 97], JStr (skill_area g)),
            ([114, 101, 113, 117, 105, 114, 101, 100, 95, 108, 101, 118, 101, 108], JStr (required_level g)),
            ([99, 117, 114, 114, 101, 110, 116, 95, 108, 101, 118, 101, 108], JStr (current_level g)),
            ([103, 97, 112, 95, 115, 105, 122, 101], JStr (gap_size g)),
            ([105, 109, 112, 114, 111, 118, 101, 109, 101, 110, 116, 95, 115, 117, 103, 103, 101, 115, 116, 105, 111, 110, 115], json_strs (improvement_suggestions g))]"

definition json_reference :: "Reference \<Rightarrow> json" where
  "json_reference r =
     JDict [([112, 114, 111, 106, 101, 99, 116, 95, 110, 97, 109, 101], JStr (ref_project_name r)),
            ([99, 108, 105, 101, 110, 116], JStr (client r)),
            ([115, 117, 99, 99, 101, 115, 115, 95, 109, 101, 116, 114, 105, 99, 115], json_str_dict (success_metrics r)),
            ([115, 108, 97, 95, 112, 101, 114, 102, 111, 114, 109, 97, 110, 99, 101], json_str_dict (sla_performance r)),
            ([99, 117, 115, 116, 111, 109, 101, 114, 95, 102, 101, 101, 100, 98, 97, 99, 107], JStr (customer_feedback r)),
            ([97, 112, 112, 108, 105, 99, 97, 98, 108, 101, 95, 114, 101, 113, 117, 105, 114, 101, 109, 101, 110, 116, 115], json_strs (applicable_requirements r))]"

definition json_internal_match :: "InternalMatchResult \<Rightarrow> json" where
  "json_internal_match m =
     JDict [([112, 114, 111, 106, 101, 99, 116, 95, 109, 97, 116, 99, 104, 101, 115], JList (map json_project_match (project_matches m))),
            ([115, 107, 105, 108, 108, 95, 103, 97, 112, 115], JList (map json_skill_gap (skill_gaps m))),
            ([114, 101, 102, 101, 114, 101, 110, 99, 101, 115], JList (map json_reference (references m))),
            ([111, 118, 101, 114, 97, 108, 108, 95, 114, 101, 97, 100, 105, 110, 101, 115, 115], JStr (overall_readiness m)),
            ([99, 111, 110, 102, 105, 100, 101, 110, 99, 101, 95, 115, 99, 111, 114, 101], JNum (confidence_score m))]"

definition json_competitor_profile :: "CompetitorProfile \<Rightarrow> json" where
  "json_competitor_profile p =
     JDict [([99, 111, 109, 112, 97, 110, 121, 95, 110, 97, 109, 101], JStr (company_name p)),
            ([112, 111, 114, 116, 102, 111, 108, 105, 111], json_strs (portfolio p)),
            ([119, 105, 110, 95, 104, 105, 115, 116, 111, 114, 121], JList (map json_str_dict (win_history p))),
            ([112, 114, 105, 99, 101, 95, 112, 111, 115, 105, 116, 105, 111, 110, 105, 110, 103], JStr (price_positioning p)),
            ([116, 101, 99, 104, 95, 115, 116, 97, 99, 107], json_strs (tech_stack p)),
            ([112, 97, 114, 116, 110, 101, 114, 115, 104, 105, 112, 115], json_strs (partnerships p)),
            ([115, 116, 114, 101, 110, 103, 116, 104, 115], json_strs (cp_strengths p)),
            ([119, 101, 97, 107, 110, 101, 115, 115, 101, 115], json_strs (cp_weaknesses p)),
            ([111, 112, 112, 111, 114, 116, 117, 110, 105, 116, 105, 101, 115], json_strs (cp_opportunities p)),
            ([116, 104, 114, 101, 97, 116, 115], json_strs (cp_threats p))]"

definition json_competitive_analysis :: "CompetitiveAnalysis \<Rightarrow> json" where
  "json_competitive_analysis a =
     JDict [([99, 111, 109, 112, 101, 116, 105, 116, 111, 114, 95, 112, 114, 111, 102, 105, 108, 101, 115], JList (map json_competitor_profile (competitor_profiles a))),
            ([111, 117, 114, 95, 97, 100, 118, 97, 110, 116, 97, 103, 101, 115], json_strs (our_advantages a)),
            ([111, 117, 114, 95, 100, 105, 115, 97, 100, 118, 97, 110, 116, 97, 103, 101, 115], json_strs (our_disadvantages a)),
            ([100, 105, 102, 102, 101, 114, 101, 110, 116, 105, 97, 116, 105, 111, 110, 95, 112, 111, 105, 110, 116, 115], json_strs (differentiation_points a)),
            ([109, 97, 114, 107, 101, 116, 95, 112, 111, 115, 105, 116, 105, 111, 110, 105, 110, 103], json_str_dict (market_positioning a))]"

definition json_evaluation_score :: "EvaluationScore \<Rightarrow> json" where
  "json_evaluation_score s =
     JDict [([99, 114, 105, 116, 101, 114, 105, 97], JStr (criteria s)),
            ([119, 101, 105, 103, 104, 116], JNum (weight s)),
            ([111, 117, 114, 95, 115, 99, 111, 114, 101], JNum (our_score s)),
            ([99, 111, 109, 112, 101, 116, 105, 116, 111, 114, 95, 97, 118, 103, 95, 115, 99, 111, 114, 101], JNum (competitor_avg_score s)),
            ([115, 99, 111, 114, 101, 95, 100, 105, 102, 102, 101, 114, 101, 110, 99, 101], JNum (score_difference s)),
            ([119, 101, 105, 103, 104, 116, 101, 100, 95, 115, 99, 111, 114, 101], JNum (weighted_score s))]"

definition json_risk_factor :: "RiskFactor \<Rightarrow> json" where
  "json_risk_factor r =
     JDict [([114, 105, 115, 107, 95, 116, 121, 112, 101], JStr (risk_type r)),
            ([115, 101, 118, 101, 114, 105, 116, 121], JStr (severity r)),
            ([105, 109, 112, 97, 99, 116], JNum (impact r)),
            ([112, 114, 111, 98, 97, 98, 105, 108, 105, 116, 121], JNum (probability r)),
            ([109, 105, 116, 105, 103, 97, 116, 105, 111, 110], json_opt_str (mitigation r))]"

definition json_win_probability :: "WinProbabilityResult \<Rightarrow> json" where
  "json_win_probability w =
     JDict [([111, 118, 101, 114, 97, 108, 108, 95, 100, 105, 102, 102, 105, 99, 117, 108, 116, 121], JStr (overall_difficulty w)),
            ([119, 105, 110, 95, 112, 114, 111, 98, 97, 98, 105, 108, 105, 116, 121], JNum (win_probability w)),
            ([101, 118, 97, 108, 117, 97, 116, 105, 111, 110, 95, 115, 99, 111, 114, 101, 115], JList (map json_evaluation_score (evaluation_scores w))),
            ([114, 105, 115, 107, 95, 102, 97, 99, 116, 111, 114, 115], JList (map json_risk_factor (risk_factors w))),
            ([107, 101, 121, 95, 100, 114, 105, 118, 101, 114, 115], json_strs (key_drivers w)),
            ([99, 111, 110, 102, 105, 100, 101, 110, 99, 101, 95, 108, 101, 118, 101, 108], JNum (confidence_level w))]"

definition json_improvement_action :: "ImprovementAction \<Rightarrow> json" where
  "json_improvement_action a =
     JDict [([97, 99, 116, 105, 111, 110, 95, 116, 121, 112, 101], JStr (action_type a)),
            ([100, 101, 115, 99, 114, 105, 112, 116, 105, 111, 110], JStr (description a)),
            ([112, 114, 105, 111, 114, 105, 116, 121], JStr (priority a)),
            ([116, 105, 109, 101, 108, 105, 110, 101], JStr (timeline a)),
            ([99, 111, 115, 116, 95, 101, 115, 116, 105, 109, 97, 116, 101], json_opt_str (cost_estimate a)),
            ([115, 117, 99, 99, 101, 115, 115, 95, 112, 114, 111, 98, 97, 98, 105, 108, 105, 116, 121], JNum (success_probability a))]"

definition json_company_swot :: "CompanySWOT \<Rightarrow> json" where
  "json_company_swot s =
     JDict [([115, 116, 114, 101, 110, 103, 116, 104, 115], json_strs (strengths s)),
            ([119, 101, 97, 107, 110, 101, 115, 115, 101, 115], json_strs (weaknesses s)),
            ([111, 112, 112, 111, 114, 116, 117, 110, 105, 116, 105, 101, 115], json_strs (opportunities s)),
            ([116, 104, 114, 101, 97, 116, 115], json_strs (threats s)),
            ([115, 116, 114, 97, 116, 101, 103, 105, 99, 95, 102, 111, 99, 117, 115], json_strs (strategic_focus s))]"

definition json_differentiation_message :: "DifferentiationMessage \<Rightarrow> json" where
  "json_differentiation_message m =
     JDict [([107, 101, 121, 95, 112, 111, 105, 110, 116], JStr (key_point m)),
            ([115, 117, 112, 112, 111, 114, 116, 105, 110, 103, 95, 101, 118, 105, 100, 101, 110, 99, 101], json_strs (supporting_evidence m)),
            ([101, 118, 97, 108, 117, 97, 116, 105, 111, 110, 95, 99, 114, 105, 116, 101, 114, 105, 97], JStr (dm_evaluation_criteria m)),
            ([99, 111, 109, 112, 101, 116, 105, 116, 105, 118, 101, 95, 97, 100, 118, 97, 110, 116, 97, 103, 101], JStr (competitive_advantage m))]"

definition json_strategy_synthesis :: "StrategySynthesis \<Rightarrow> json" where
  "json_strategy_synthesis s =
     JDict [([105, 109, 112, 114, 111, 118, 101, 109, 101, 110, 116, 95, 97, 99, 116, 105, 111, 110, 115], JList (map json_improvement_action (improvement_actions s))),
            ([99, 111, 109, 112, 97, 110, 121, 95, 115, 119, 111, 116], (case company_swot s of
                                  None \<Rightarrow> JNull
                                | Some swot \<Rightarrow> json_company_swot swot)),
            ([100, 105, 102, 102, 101, 114, 101, 110, 116, 105, 97, 116, 105, 111, 110, 95, 109, 101, 115, 115, 97, 103, 101, 115],
               JList (map json_differentiation_message (differentiation_messages s))),
            ([115, 116, 114, 97, 116, 101, 103, 105, 99, 95, 114, 101, 99, 111, 109, 109, 101, 110, 100, 97, 116, 105, 111, 110, 115], json_strs (strategic_recommendations s)),
            ([115, 117, 99, 99, 101, 115, 115, 95, 102, 97, 99, 116, 111, 114, 115], json_strs (success_factors s))]"

definition asdict_result :: "AnalysisPipelineResult \<Rightarrow> json" where
  "asdict_result result =
     JDict [([114, 102, 112, 95, 97, 110, 97, 108, 121, 115, 105, 115], json_rfp_analysis (rfp_analysis result)),
            ([105, 110, 116, 101, 114, 110, 97, 108, 95, 109, 97, 116, 99, 104], json_internal_match (internal_match result)),
            ([99, 111, 109, 112, 101, 116, 105, 116, 111, 114, 95, 97, 110, 97, 108, 121, 115, 105, 115], json_competitive_analysis (competitor_analysis result)),
            ([119, 105, 110, 95, 112, 114, 111, 98, 97, 98, 105, 108, 105, 116, 121], json_win_probability (apr_win_probability result)),
            ([115, 116, 114, 97, 116, 101, 103, 121, 95, 115, 121, 110, 116, 104, 101, 115, 105, 115], json_strategy_synthesis (strategy_synthesis result)),
            ([101, 120, 101, 99, 117, 116, 105, 111, 110, 95, 115, 117, 109, 109, 97, 114, 121], JDict (execution_summary result))]"

text \<open>
  \<open>export_analysis_report\<close>: the JSON text of the whole result, the JSON text of the
  summary, or the plain message "unsupported format".
\<close>

datatype report = JsonText json | PlainText pystr

definition export_analysis_report :: "AnalysisPipelineResult \<Rightarrow> pystr \<Rightarrow> report" where
  "export_analysis_report result fmt =
     (if fmt = [106, 115, 111, 110] then JsonText (asdict_result result)
      else if fmt = [115, 117, 109, 109, 97, 114, 121] then JsonText (JDict (get_analysis_summary result))
      else PlainText [51648, 50896, 54616, 51648, 32, 50506, 45716, 32, 54805, 49885, 51077, 45768, 45796, 46])"

text \<open>
  Reparsing, as the specification words it: the exported text is read back
  (\<open>json.loads\<close>) and the fields of the win probability result are read from the value
  under their names. \<open>None\<close> when a field is missing or has another type.
\<close>

definition json_get :: "json \<Rightarrow> pystr \<Rightarrow> json option" where
  "json_get j k = (case j of JDict d \<Rightarrow> map_of d k | _ \<Rightarrow> None)"

definition read_str :: "json \<Rightarrow> pystr \<Rightarrow> pystr option" where
  "read_str j k = (case json_get j k of Some (JStr s) \<Rightarrow> Some s | _ \<Rightarrow> None)"

definition read_num :: "json \<Rightarrow> pystr \<Rightarrow> rat option" where
  "read_num j k = (case json_get j k of Some (JNum x) \<Rightarrow> Some x | _ \<Rightarrow> None)"

definition read_opt_str :: "json \<Rightarrow> pystr \<Rightarrow> pystr option option" where
  "read_opt_str j k =
     (case json_get j k of Some (JStr s) \<Rightarrow> Some (Some s) | Some JNull \<Rightarrow> Some None | _ \<Rightarrow> None)"

definition read_list :: "(json \<Rightarrow> 'a option) \<Rightarrow> json \<Rightarrow> pystr \<Rightarrow> 'a list option" where
  "read_list f j k = (case json_get j k of Some (JList xs) \<Rightarrow> those (map f xs) | _ \<Rightarrow> None)"

definition read_plain_str :: "json \<Rightarrow> pystr option" where
  "read_plain_str j = (case j of JStr s \<Rightarrow> Some s | _ \<Rightarrow> None)"

definition reparse_evaluation_score :: "json \<Rightarrow> EvaluationScore option" where
  "reparse_evaluation_score j =
     (case (read_str j [99, 114, 105, 116, 101, 114, 105, 97], read_num j [119, 101, 105, 103, 104, 116], read_num j [111, 117, 114, 95, 115, 99, 111, 114, 101],
            read_num j [99, 111, 109, 112, 101, 116, 105, 116, 111, 114, 95, 97, 118, 103, 95, 115, 99, 111, 114, 101], read_num j [115, 99, 111, 114, 101, 95, 100, 105, 102, 102, 101, 114, 101, 110, 99, 101],
            read_num j [119, 101, 105, 103, 104, 116, 101, 100, 95, 115, 99, 111, 114, 101]) of
        (Some c, Some w, Some ours, Some theirs, Some d, Some ws) \<Rightarrow>
          Some \<lparr> criteria = c, weight = w, our_score = ours, competitor_avg_score = theirs,
                 score_difference = d, weighted_score = ws \<rparr>
      | _ \<Rightarrow> None)"

definition reparse_risk_factor :: "json \<Rightarrow> RiskFactor option" where
  "reparse_risk_factor j =
     (case (read_str j [114, 105, 115, 107, 95, 116, 121, 112, 101], read_str j [115, 101, 118, 101, 114, 105, 116, 121], read_num j [105, 109, 112, 97, 99, 116],
            read_num j [112, 114, 111, 98, 97, 98, 105, 108, 105, 116, 121], read_opt_str j [109, 105, 116, 105, 103, 97, 116, 105, 111, 110]) of
        (Some rt, Some sev, Some i, Some p, Some m) \<Rightarrow>
          Some \<lparr> risk_type = rt, severity = sev, impact = i, probability = p,
                 mitigation = m \<rparr>
      | _ \<Rightarrow> None)"

definition reparse_win_probability :: "json \<Rightarrow> WinProbabilityResult option" where
  "reparse_win_probability j =
     (case (read_str j [111, 118, 101, 114, 97, 108, 108, 95, 100, 105, 102, 102, 105, 99, 117, 108, 116, 121], read_num j [119, 105, 110, 95, 112, 114, 111, 98, 97, 98, 105, 108, 105, 116, 121],
            read_list reparse_evaluation_score j [101, 118, 97, 108, 117, 97, 116, 105, 111, 110, 95, 115, 99, 111, 114, 101, 115],
            read_list reparse_risk_factor j [114, 105, 115, 107, 95, 102, 97, 99, 116, 111, 114, 115],
            read_list read_plain_str j [107, 101, 121, 95, 100, 114, 105, 118, 101, 114, 115],
            read_num j [99, 111, 110, 102, 105, 100, 101, 110, 99, 101, 95, 108, 101, 118, 101, 108]) of
        (Some d, Some p, Some scores, Some risks, Some drivers, Some c) \<Rightarrow>
          Some \<lparr> overall_difficulty = d, win_probability = p, evaluation_scores = scores,
                 risk_factors = risks, key_drivers = drivers, confidence_level = c \<rparr>
      | _ \<Rightarrow> None)"

text \<open>The win probability result read back from an exported report.\<close>

definition reparse_report :: "report \<Rightarrow> WinProbabilityResult option" where
  "reparse_report r =
     (case r of
        JsonText j \<Rightarrow>
          (case json_get j [119, 105, 110, 95, 112, 114, 111, 98, 97, 98, 105, 108, 105, 116, 121] of
             Some w \<Rightarrow> reparse_win_probability w
           | None \<Rightarrow> None)
      | PlainText _ \<Rightarrow> None)"

section \<open>Sample inputs\<close>

text \<open>A competitor profile with three strengths and two weaknesses, for worked examples.\<close>

definition sample_profile :: CompetitorProfile where
  "sample_profile =
     \<lparr> company_name = [75, 84], portfolio = [], win_history = [],
       price_positioning = [], tech_stack = [], partnerships = [],
       cp_strengths = [[97], [98], [99]], cp_weaknesses = [[100], [101]],
       cp_opportunities = [], cp_threats = [] \<rparr>"

text \<open>Three skill gaps (severe, lacking, neither) and two risk flags (high, low).\<close>

definition sample_gaps :: "SkillGap list" where
  "sample_gaps =
     [\<lparr> skill_area = [65, 73], required_level = [], current_level = [],
        gap_size = gap_severe, improvement_suggestions = [] \<rparr>,
      \<lparr> skill_area = [68, 66], required_level = [], current_level = [],
        gap_size = gap_lacking, improvement_suggestions = [] \<rparr>,
      \<lparr> skill_area = [85, 73], required_level = [], current_level = [],
        gap_size = [79, 75], improvement_suggestions = [] \<rparr>]"

definition sample_risks :: "RiskFlag list" where
  "sample_risks =
     [\<lparr> flag_risk_type = risk_boan, flag_description = [], flag_severity = SANG,
        flag_mitigation = None \<rparr>,
      \<lparr> flag_risk_type = risk_mosun, flag_description = [], flag_severity = HA,
        flag_mitigation = None \<rparr>]"

text \<open>
  The results the two outside agents fall back to when their own work fails
  (\<open>_create_default_result\<close> of each), and collaborators that answer with them; and
  collaborators whose first stage raises.
\<close>

definition rfp_default_result :: RFPAnalysisResult where
  "rfp_default_result =
     \<lparr> requirements = [], evaluation_criteria = [], risk_flags = [],
       rfp_timeline = None, budget_range = None, submission_format = None \<rparr>"

definition rag_default_result :: InternalMatchResult where
  "rag_default_result =
     \<lparr> project_matches = [], skill_gaps = [], references = [],
       overall_readiness = HA, confidence_score = 0 \<rparr>"

definition quiet_collaborators :: collaborators where
  "quiet_collaborators =
     \<lparr> analyze_rfp = (\<lambda>content. Inr rfp_default_result),
       match_requirements = (\<lambda>reqs. Inr rag_default_result),
       str_lower = (\<lambda>s. s) \<rparr>"

definition failing_collaborators :: collaborators where
  "failing_collaborators =
     \<lparr> analyze_rfp = (\<lambda>content. Inl (StageError [])),
       match_requirements = (\<lambda>reqs. Inr rag_default_result),
       str_lower = (\<lambda>s. s) \<rparr>"

text \<open>An RFP text of 100 letters, and a list of 11 competitors, all in the database.\<close>

definition sample_content :: pystr where
  "sample_content = replicate 100 97"

definition eleven_competitors :: "pystr list" where
  "eleven_competitors = default_competitors @ take 4 default_competitors"

text \<open>The error result with the win probability 0.5004 in place of 0.5.\<close>

definition near_half_result :: AnalysisPipelineResult where
  "near_half_result =
     create_error_result
       \<lparr> apr_win_probability :=
           (apr_win_probability create_error_result) \<lparr> win_probability := 1251/2500 \<rparr> \<rparr>"

text \<open>An internal match with the one severe skill gap of the samples.\<close>

definition gap_result :: InternalMatchResult where
  "gap_result =
     \<lparr> project_matches = [], skill_gaps = [hd sample_gaps], references = [],
       overall_readiness = HA, confidence_score = 0 \<rparr>"

text \<open>Collaborators whose internal match is the one with the severe skill gap.\<close>

definition gap_collaborators :: collaborators where
  "gap_collaborators =
     \<lparr> analyze_rfp = (\<lambda>content. Inr rfp_default_result),
       match_requirements = (\<lambda>reqs. Inr gap_result),
       str_lower = (\<lambda>s. s) \<rparr>"

section \<open>Properties of the win probability agent\<close>

lemma tiers_distinct:
  "HA \<noteq> JUNG" "HA \<noteq> SANG" "JUNG \<noteq> SANG" "JUNG \<noteq> HA" "SANG \<noteq> HA" "SANG \<noteq> JUNG"
  by (simp_all add: HA_def JUNG_def SANG_def)

lemmas wp_eval_defs =
  calculate_win_probability_def win_probability_try_def calculate_our_score_def
  calculate_competitor_score_def get_or_def dict_get_def readiness_scores_def
  SANG_def JUNG_def HA_def Unknown_def analyze_risk_factors_def analyze_risk_flag_def
  calculate_risk_adjustment_def determine_difficulty_and_probability_def
  identify_key_drivers_def calculate_confidence_def impact_scores_def
  probability_scores_def Let_def

lemma win_probability_try_no_criteria:
  "win_probability_try [] im ca rf = Inl ValueError"
  by (simp add: win_probability_try_def identify_key_drivers_def Let_def)

lemma calculate_win_probability_no_criteria:
  "calculate_win_probability [] im ca rf = create_default_result"
  by (simp add: calculate_win_probability_def win_probability_try_no_criteria)

text \<open>
  Claim C5. With no evaluation criteria and no risk flags \<open>calculate_win_probability\<close>
  raises nothing and returns a complete result: it is the default result, whose win
  probability is 0.5 and whose difficulty is the middle tier.
\<close>

theorem empty_inputs_give_default:
  "calculate_win_probability [] im ca [] = create_default_result
   \<and> win_probability (calculate_win_probability [] im ca []) = 1/2
   \<and> overall_difficulty (calculate_win_probability [] im ca []) = JUNG"
  by (simp add: calculate_win_probability_no_criteria create_default_result_def)

theorem empty_inputs_give_default_witness:
  "win_probability (calculate_win_probability []
      \<lparr>imd_overall_readiness = Some SANG, imd_confidence_score = Some 1,
        imd_skill_gaps = None, imd_our_advantages = None, imd_our_disadvantages = None\<rparr>
      \<lparr>cad_competitor_profiles = None, cad_our_advantages = None,
        cad_differentiation_points = None\<rparr> []) = 1/2"
  using empty_inputs_give_default
    [of "\<lparr>imd_overall_readiness = Some SANG, imd_confidence_score = Some 1,
        imd_skill_gaps = None, imd_our_advantages = None, imd_our_disadvantages = None\<rparr>"
        "\<lparr>cad_competitor_profiles = None, cad_our_advantages = None,
        cad_differentiation_points = None\<rparr>"]
  by blast

text \<open>
  Claim C1. With no evaluation criteria and one risk flag of high severity, the body of
  \<open>calculate_win_probability\<close> raises \<open>ValueError\<close> (the \<open>max\<close> over the empty score
  list in \<open>_identify_key_drivers\<close>), so the function returns the default result: win
  probability 0.5 and no risk factor, although the tier step had computed 0.4 from the
  neutral base and the penalty of 0.1.
\<close>

theorem single_high_risk_flag_gives_default:
  "win_probability_try [] im ca
     [\<lparr>rfd_risk_type = rt, rfd_severity = Some SANG, rfd_mitigation = m\<rparr>] = Inl ValueError
   \<and> calculate_win_probability [] im ca
     [\<lparr>rfd_risk_type = rt, rfd_severity = Some SANG, rfd_mitigation = m\<rparr>] = create_default_result
   \<and> win_probability (calculate_win_probability [] im ca
     [\<lparr>rfd_risk_type = rt, rfd_severity = Some SANG, rfd_mitigation = m\<rparr>]) = 1/2
   \<and> risk_factors (calculate_win_probability [] im ca
     [\<lparr>rfd_risk_type = rt, rfd_severity = Some SANG, rfd_mitigation = m\<rparr>]) = []
   \<and> determine_difficulty_and_probability 0 (analyze_risk_factors
     [\<lparr>rfd_risk_type = rt, rfd_severity = Some SANG, rfd_mitigation = m\<rparr>]) = (JUNG, 4/10)"
  by (simp add: calculate_win_probability_no_criteria win_probability_try_no_criteria
      create_default_result_def determine_difficulty_and_probability_def analyze_risk_factors_def
      analyze_risk_flag_def get_or_def Let_def)

lemma determine_tiers:
  "(fst (determine_difficulty_and_probability a rs) = HA
      \<longleftrightarrow> 7/10 \<le> snd (determine_difficulty_and_probability a rs))
   \<and> (fst (determine_difficulty_and_probability a rs) = JUNG
      \<longleftrightarrow> 4/10 \<le> snd (determine_difficulty_and_probability a rs)
          \<and> snd (determine_difficulty_and_probability a rs) < 7/10)
   \<and> (fst (determine_difficulty_and_probability a rs) = SANG
      \<longleftrightarrow> snd (determine_difficulty_and_probability a rs) < 4/10)"
  by (auto simp add: determine_difficulty_and_probability_def Let_def tiers_distinct)

lemma determine_bounds:
  "0 \<le> snd (determine_difficulty_and_probability a rs)
   \<and> snd (determine_difficulty_and_probability a rs) \<le> 1"
  by (simp add: determine_difficulty_and_probability_def Let_def)

lemma try_result_fields:
  assumes "win_probability_try ec im ca rf = Inr r"
  shows "\<exists>a. overall_difficulty r = fst (determine_difficulty_and_probability a (analyze_risk_factors rf))
           \<and> win_probability r = snd (determine_difficulty_and_probability a (analyze_risk_factors rf))"
    and "\<exists>scores. confidence_level r = calculate_confidence scores (analyze_risk_factors rf)"
  using assms
  by (auto simp add: win_probability_try_def Let_def split: sum.splits)

text \<open>
  Claim C6. In every result of \<open>calculate_win_probability\<close> the difficulty is the lower
  tier exactly when the win probability is at least 0.7, the middle tier exactly when it
  is at least 0.4 and below 0.7, and the upper tier exactly when it is below 0.4.
\<close>

theorem difficulty_tier_classification:
  "(overall_difficulty (calculate_win_probability ec im ca rf) = HA
      \<longleftrightarrow> 7/10 \<le> win_probability (calculate_win_probability ec im ca rf))
   \<and> (overall_difficulty (calculate_win_probability ec im ca rf) = JUNG
      \<longleftrightarrow> 4/10 \<le> win_probability (calculate_win_probability ec im ca rf)
          \<and> win_probability (calculate_win_probability ec im ca rf) < 7/10)
   \<and> (overall_difficulty (calculate_win_probability ec im ca rf) = SANG
      \<longleftrightarrow> win_probability (calculate_win_probability ec im ca rf) < 4/10)"
proof (cases "win_probability_try ec im ca rf")
  case (Inl e)
  then show ?thesis
    by (simp add: calculate_win_probability_def create_default_result_def tiers_distinct)
next
  case (Inr r)
  from try_result_fields(1)[OF Inr] obtain a where
    "overall_difficulty r = fst (determine_difficulty_and_probability a (analyze_risk_factors rf))"
    "win_probability r = snd (determine_difficulty_and_probability a (analyze_risk_factors rf))"
    by blast
  with determine_tiers[of a "analyze_risk_factors rf"] Inr show ?thesis
    by (simp add: calculate_win_probability_def)
qed

theorem difficulty_tier_classification_witness:
  "win_probability (calculate_win_probability
      [\<lparr>cd_item = Some [65], cd_weight = Some 1\<rparr>]
      \<lparr>imd_overall_readiness = Some SANG, imd_confidence_score = Some 1,
        imd_skill_gaps = None, imd_our_advantages = None, imd_our_disadvantages = None\<rparr>
      \<lparr>cad_competitor_profiles = None, cad_our_advantages = None,
        cad_differentiation_points = None\<rparr> []) = 7/10
   \<and> overall_difficulty (calculate_win_probability
      [\<lparr>cd_item = Some [65], cd_weight = Some 1\<rparr>]
      \<lparr>imd_overall_readiness = Some SANG, imd_confidence_score = Some 1,
        imd_skill_gaps = None, imd_our_advantages = None, imd_our_disadvantages = None\<rparr>
      \<lparr>cad_competitor_profiles = None, cad_our_advantages = None,
        cad_differentiation_points = None\<rparr> []) = HA
   \<and> win_probability (calculate_win_probability
      [\<lparr>cd_item = Some [65], cd_weight = Some (4/7)\<rparr>]
      \<lparr>imd_overall_readiness = None, imd_confidence_score = None,
        imd_skill_gaps = None, imd_our_advantages = None, imd_our_disadvantages = None\<rparr>
      \<lparr>cad_competitor_profiles = None, cad_our_advantages = None,
        cad_differentiation_points = None\<rparr> []) = 4/10
   \<and> overall_difficulty (calculate_win_probability
      [\<lparr>cd_item = Some [65], cd_weight = Some (4/7)\<rparr>]
      \<lparr>imd_overall_readiness = None, imd_confidence_score = None,
        imd_skill_gaps = None, imd_our_advantages = None, imd_our_disadvantages = None\<rparr>
      \<lparr>cad_competitor_profiles = None, cad_our_advantages = None,
        cad_differentiation_points = None\<rparr> []) = JUNG"
proof -
  have low: "win_probability (calculate_win_probability
      [\<lparr>cd_item = Some [65], cd_weight = Some 1\<rparr>]
      \<lparr>imd_overall_readiness = Some SANG, imd_confidence_score = Some 1,
        imd_skill_gaps = None, imd_our_advantages = None, imd_our_disadvantages = None\<rparr>
      \<lparr>cad_competitor_profiles = None, cad_our_advantages = None,
        cad_differentiation_points = None\<rparr> []) = 7/10"
    by (simp add: wp_eval_defs)
  have mid: "win_probability (calculate_win_probability
      [\<lparr>cd_item = Some [65], cd_weight = Some (4/7)\<rparr>]
      \<lparr>imd_overall_readiness = None, imd_confidence_score = None,
        imd_skill_gaps = None, imd_our_advantages = None, imd_our_disadvantages = None\<rparr>
      \<lparr>cad_competitor_profiles = None, cad_our_advantages = None,
        cad_differentiation_points = None\<rparr> []) = 4/10"
    by (simp add: wp_eval_defs)
  show ?thesis
    using low mid
      difficulty_tier_classification
        [of "[\<lparr>cd_item = Some [65], cd_weight = Some 1\<rparr>]"
            "\<lparr>imd_overall_readiness = Some SANG, imd_confidence_score = Some 1,
        imd_skill_gaps = None, imd_our_advantages = None, imd_our_disadvantages = None\<rparr>"
            "\<lparr>cad_competitor_profiles = None, cad_our_advantages = None,
        cad_differentiation_points = None\<rparr>" "[]"]
      difficulty_tier_classification
        [of "[\<lparr>cd_item = Some [65], cd_weight = Some (4/7)\<rparr>]"
            "\<lparr>imd_overall_readiness = None, imd_confidence_score = None,
        imd_skill_gaps = None, imd_our_advantages = None, imd_our_disadvantages = None\<rparr>"
            "\<lparr>cad_competitor_profiles = None, cad_our_advantages = None,
        cad_differentiation_points = None\<rparr>" "[]"]
    by simp
qed

lemma confidence_bounds:
  "0 \<le> calculate_confidence scores risks \<and> calculate_confidence scores risks \<le> 1"
  by (simp add: calculate_confidence_def Let_def)

lemma foldl_risk_sum:
  "foldl (\<lambda>total risk. total + impact risk * probability risk) acc risks
     = acc + sum_list (map (\<lambda>risk. impact risk * probability risk) risks)"
  by (induction risks arbitrary: acc) simp_all

lemma analyze_risk_flag_nonneg:
  "0 \<le> impact (analyze_risk_flag f) \<and> 0 \<le> probability (analyze_risk_flag f)"
  by (simp add: analyze_risk_flag_def Let_def dict_get_def impact_scores_def
      probability_scores_def split: option.splits)

lemma risk_sum_nonneg:
  "0 \<le> sum_list (map (\<lambda>risk. impact risk * probability risk) (analyze_risk_factors flags))"
  unfolding analyze_risk_factors_def
  by (rule sum_list_nonneg) (auto simp add: analyze_risk_flag_nonneg)

lemma risk_adjustment_bounds:
  "0 \<le> calculate_risk_adjustment (analyze_risk_factors flags)
   \<and> calculate_risk_adjustment (analyze_risk_factors flags) \<le> 3/10"
proof (cases "analyze_risk_factors flags = []")
  case True
  then show ?thesis by (simp add: calculate_risk_adjustment_def)
next
  case False
  let ?s = "sum_list (map (\<lambda>risk. impact risk * probability risk) (analyze_risk_factors flags))"
  let ?n = "rat_of_nat (length (analyze_risk_factors flags))"
  have eq: "calculate_risk_adjustment (analyze_risk_factors flags) = min (3/10) (?s / ?n)"
    using False by (simp add: calculate_risk_adjustment_def Let_def foldl_risk_sum)
  have "0 \<le> ?s / ?n"
    using risk_sum_nonneg[of flags] by simp
  then have "0 \<le> min (3/10) (?s / ?n)" by simp
  moreover have "min (3/10) (?s / ?n) \<le> 3/10" by (rule min.cobounded1)
  ultimately show ?thesis using eq by simp
qed

text \<open>
  Claim C7. For all criteria, internal match, competitor analysis and risk flags, the win
  probability and the confidence of the result lie in [0, 1], and the risk adjustment
  computed from the risk flags lies in [0, 0.3].
\<close>

theorem scoring_outputs_bounded:
  "0 \<le> win_probability (calculate_win_probability ec im ca rf)
   \<and> win_probability (calculate_win_probability ec im ca rf) \<le> 1
   \<and> 0 \<le> confidence_level (calculate_win_probability ec im ca rf)
   \<and> confidence_level (calculate_win_probability ec im ca rf) \<le> 1
   \<and> 0 \<le> calculate_risk_adjustment (analyze_risk_factors rf)
   \<and> calculate_risk_adjustment (analyze_risk_factors rf) \<le> 3/10"
proof (cases "win_probability_try ec im ca rf")
  case (Inl e)
  then show ?thesis
    using risk_adjustment_bounds[of rf]
    by (simp add: calculate_win_probability_def create_default_result_def)
next
  case (Inr r)
  from try_result_fields(1)[OF Inr] obtain a where
    wp: "win_probability r = snd (determine_difficulty_and_probability a (analyze_risk_factors rf))"
    by blast
  from try_result_fields(2)[OF Inr] obtain scores where
    cl: "confidence_level r = calculate_confidence scores (analyze_risk_factors rf)"
    by blast
  show ?thesis
    using Inr wp cl determine_bounds[of a "analyze_risk_factors rf"]
      confidence_bounds[of scores "analyze_risk_factors rf"] risk_adjustment_bounds[of rf]
    by (simp add: calculate_win_probability_def)
qed

theorem scoring_outputs_bounded_witness:
  "0 \<le> win_probability (calculate_win_probability
      [\<lparr>cd_item = Some [65], cd_weight = Some 1\<rparr>]
      \<lparr>imd_overall_readiness = Some SANG, imd_confidence_score = Some 1,
        imd_skill_gaps = None, imd_our_advantages = None, imd_our_disadvantages = None\<rparr>
      \<lparr>cad_competitor_profiles = None, cad_our_advantages = None,
        cad_differentiation_points = None\<rparr>
      [\<lparr>rfd_risk_type = Some risk_boan, rfd_severity = Some SANG, rfd_mitigation = None\<rparr>])
   \<and> calculate_risk_adjustment (analyze_risk_factors
      [\<lparr>rfd_risk_type = Some risk_boan, rfd_severity = Some SANG, rfd_mitigation = None\<rparr>])
      \<le> 3/10"
  using scoring_outputs_bounded
    [of "[\<lparr>cd_item = Some [65], cd_weight = Some 1\<rparr>]"
        "\<lparr>imd_overall_readiness = Some SANG, imd_confidence_score = Some 1,
        imd_skill_gaps = None, imd_our_advantages = None, imd_our_disadvantages = None\<rparr>"
        "\<lparr>cad_competitor_profiles = None, cad_our_advantages = None,
        cad_differentiation_points = None\<rparr>"
        "[\<lparr>rfd_risk_type = Some risk_boan, rfd_severity = Some SANG, rfd_mitigation = None\<rparr>]"]
  by simp

lemma our_score_ignores_criterion:
  "calculate_our_score c im = calculate_our_score c' im"
  by (simp add: calculate_our_score_def)

lemma competitor_score_ignores_criterion:
  "calculate_competitor_score c ca = calculate_competitor_score c' ca"
  by (simp add: calculate_competitor_score_def)

text \<open>
  Claim C10. Every entry of a list returned by \<open>_calculate_evaluation_scores\<close> carries
  the same \<open>our_score\<close> and the same \<open>competitor_avg_score\<close>: the values the two
  scoring functions give for any criterion whatever, since neither reads its criterion.
  The difference of the two is therefore shared as well, and an entry's weighted score
  is that difference times its own weight.
\<close>

theorem evaluation_scores_share_scores:
  "calculate_evaluation_scores ec im ca = Inr scores \<Longrightarrow>
   \<forall>s \<in> set scores. \<forall>c.
      our_score s = calculate_our_score c im
    \<and> calculate_competitor_score c ca = Inr (competitor_avg_score s)
    \<and> score_difference s = our_score s - competitor_avg_score s
    \<and> weighted_score s = score_difference s * weight s"
proof (induction ec arbitrary: scores)
  case Nil
  then show ?case by simp
next
  case (Cons crit rest)
  from Cons.prems obtain comp tl_scores where
    comp: "calculate_competitor_score crit ca = Inr comp" and
    tl: "calculate_evaluation_scores rest im ca = Inr tl_scores" and
    hd_our: "our_score (hd scores) = calculate_our_score crit im" and
    hd_comp: "competitor_avg_score (hd scores) = comp" and
    hd_diff: "score_difference (hd scores) = our_score (hd scores) - competitor_avg_score (hd scores)" and
    hd_weighted: "weighted_score (hd scores) = score_difference (hd scores) * weight (hd scores)" and
    shape: "scores = hd scores # tl_scores"
    by (auto simp add: Let_def split: sum.splits)
  show ?case
  proof (intro ballI allI)
    fix s c
    assume "s \<in> set scores"
    then consider "s = hd scores" | "s \<in> set tl_scores"
      using shape by (metis set_ConsD)
    then show "our_score s = calculate_our_score c im
      \<and> calculate_competitor_score c ca = Inr (competitor_avg_score s)
      \<and> score_difference s = our_score s - competitor_avg_score s
      \<and> weighted_score s = score_difference s * weight s"
    proof cases
      case 1
      then show ?thesis
        using hd_our hd_comp hd_diff hd_weighted comp our_score_ignores_criterion[of c im crit]
          competitor_score_ignores_criterion[of c ca crit]
        by simp
    next
      case 2
      then show ?thesis using Cons.IH[OF tl] by blast
    qed
  qed
qed

theorem evaluation_scores_share_scores_witness:
  "calculate_evaluation_scores
      [\<lparr>cd_item = Some [65], cd_weight = Some (1/2)\<rparr>, \<lparr>cd_item = None, cd_weight = None\<rparr>]
      \<lparr>imd_overall_readiness = Some SANG, imd_confidence_score = Some 1,
        imd_skill_gaps = None, imd_our_advantages = None, imd_our_disadvantages = None\<rparr>
      \<lparr>cad_competitor_profiles = Some [Instance sample_profile],
        cad_our_advantages = None, cad_differentiation_points = None\<rparr>
    = Inr [\<lparr> criteria = [65], weight = 1/2, our_score = 9/10, competitor_avg_score = 7/10,
              score_difference = 1/5, weighted_score = 1/10 \<rparr>,
           \<lparr> criteria = Unknown, weight = 1/5, our_score = 9/10, competitor_avg_score = 7/10,
              score_difference = 1/5, weighted_score = 1/25 \<rparr>]
   \<and> calculate_our_score \<lparr>cd_item = Some [66], cd_weight = Some 1\<rparr>
        \<lparr>imd_overall_readiness = Some SANG, imd_confidence_score = Some 1,
        imd_skill_gaps = None, imd_our_advantages = None, imd_our_disadvantages = None\<rparr> = 9/10
   \<and> calculate_competitor_score \<lparr>cd_item = Some [66], cd_weight = Some 1\<rparr>
        \<lparr>cad_competitor_profiles = Some [Instance sample_profile],
        cad_our_advantages = None, cad_differentiation_points = None\<rparr> = Inr (7/10)"
proof -
  let ?s1 = "\<lparr> criteria = [65], weight = 1/2, our_score = 9/10, competitor_avg_score = 7/10,
              score_difference = 1/5, weighted_score = 1/10 \<rparr>"
  let ?s2 = "\<lparr> criteria = Unknown, weight = 1/5, our_score = 9/10, competitor_avg_score = 7/10,
              score_difference = 1/5, weighted_score = 1/25 \<rparr>"
  have h: "calculate_evaluation_scores
      [\<lparr>cd_item = Some [65], cd_weight = Some (1/2)\<rparr>, \<lparr>cd_item = None, cd_weight = None\<rparr>]
      \<lparr>imd_overall_readiness = Some SANG, imd_confidence_score = Some 1,
        imd_skill_gaps = None, imd_our_advantages = None, imd_our_disadvantages = None\<rparr>
      \<lparr>cad_competitor_profiles = Some [Instance sample_profile],
        cad_our_advantages = None, cad_differentiation_points = None\<rparr>
    = Inr [?s1, ?s2]"
    by (simp add: wp_eval_defs sample_profile_def)
  have "?s2 \<in> set [?s1, ?s2]" by simp
  with evaluation_scores_share_scores [OF h]
  have "our_score ?s2 = calculate_our_score \<lparr>cd_item = Some [66], cd_weight = Some 1\<rparr>
          \<lparr>imd_overall_readiness = Some SANG, imd_confidence_score = Some 1,
        imd_skill_gaps = None, imd_our_advantages = None, imd_our_disadvantages = None\<rparr>
      \<and> calculate_competitor_score \<lparr>cd_item = Some [66], cd_weight = Some 1\<rparr>
          \<lparr>cad_competitor_profiles = Some [Instance sample_profile],
        cad_our_advantages = None, cad_differentiation_points = None\<rparr>
        = Inr (competitor_avg_score ?s2)"
    by blast
  with h show ?thesis by simp
qed

section \<open>Properties of the strategy synthesizer\<close>

lemma gap_actions_loop_instances:
  "gap_actions_loop (map Instance gaps) acc = Inr (acc @ concat (map spec_gap_action gaps))"
  by (induction gaps arbitrary: acc) (simp_all add: spec_gap_action_def)

lemma risk_actions_loop_instances:
  "risk_actions_loop (map Instance risks) acc = Inr (acc @ concat (map spec_risk_action risks))"
  by (induction risks arbitrary: acc) (simp_all add: spec_risk_action_def)

lemma gap_actions_loop_dict:
  "AsDict g \<in> set gaps \<Longrightarrow> gap_actions_loop gaps acc = Inl AttributeError"
proof (induction gaps arbitrary: acc)
  case Nil
  then show ?case by simp
next
  case (Cons x xs)
  then show ?case
    by (cases x) (auto split: sum.splits)
qed

lemma risk_actions_loop_dict:
  "AsDict r \<in> set risks \<Longrightarrow> risk_actions_loop risks acc = Inl AttributeError"
proof (induction risks arbitrary: acc)
  case Nil
  then show ?case by simp
next
  case (Cons x xs)
  then show ?case
    by (cases x) (auto split: sum.splits)
qed

lemma all_instances:
  "\<forall>x. AsDict x \<notin> set xs \<Longrightarrow> \<exists>ys. xs = map Instance ys"
proof (induction xs)
  case Nil
  then show ?case by simp
next
  case (Cons x xs)
  then obtain ys where "xs = map Instance ys" by auto
  moreover obtain y where "x = Instance y"
    using Cons.prems by (cases x) auto
  ultimately have "x # xs = map Instance (y # ys)" by simp
  then show ?case by (rule exI[of _ "y # ys"])
qed

lemma gap_actions_loop_returns:
  "gap_actions_loop gs acc = Inr r \<Longrightarrow> \<exists>gaps. gs = map Instance gaps"
  using gap_actions_loop_dict[of _ gs acc] all_instances[of gs] by fastforce

lemma risk_actions_loop_returns:
  "risk_actions_loop rs acc = Inr r \<Longrightarrow> \<exists>risks. rs = map Instance risks"
  using risk_actions_loop_dict[of _ rs acc] all_instances[of rs] by fastforce

lemma generate_returns:
  assumes "generate_improvement_actions rfp im wp = Inr acts"
  shows "\<exists>gs rs. get_or (imd_skill_gaps im) [] = map Instance gs
           \<and> get_or (rad_risk_flags rfp) [] = map Instance rs
           \<and> acts = spec_improvement_actions gs rs"
proof -
  from assms obtain a1 a2 where
    g: "gap_actions_loop (get_or (imd_skill_gaps im) []) [] = Inr a1" and
    r: "risk_actions_loop (get_or (rad_risk_flags rfp) []) a1 = Inr a2" and
    acts: "acts = take 8 (a2 @ generic_actions)"
    by (auto simp add: generate_improvement_actions_def split: sum.splits)
  from gap_actions_loop_returns[OF g] obtain gs where
    gs: "get_or (imd_skill_gaps im) [] = map Instance gs" by blast
  from risk_actions_loop_returns[OF r] obtain rs where
    rs: "get_or (rad_risk_flags rfp) [] = map Instance rs" by blast
  have "a1 = concat (map spec_gap_action gs)"
    using g gs by (simp add: gap_actions_loop_instances)
  moreover have "a2 = a1 @ concat (map spec_risk_action rs)"
    using r rs by (simp add: risk_actions_loop_instances)
  ultimately have "acts = spec_improvement_actions gs rs"
    using acts by (simp add: spec_improvement_actions_def)
  with gs rs show ?thesis by blast
qed

lemmas synth_eval_defs =
  spec_improvement_actions_def spec_gap_action_def spec_risk_action_def generic_actions_def
  gap_severe_def gap_lacking_def SANG_def JUNG_def HA_def

text \<open>
  What \<open>_generate_improvement_actions\<close> does on entries it can read by attribute
  (dataclass instances): it returns the list the specification describes, one internal
  reinforcement action of priority high per severe gap and one external partner action
  of priority medium per lacking gap, in the order of the gaps; then one specification
  query of priority high per risk flag of high severity; then the generic actions; and
  of all these the first 8. It returns a list on such entries only.
\<close>

lemma improvement_actions_on_instances:
  "generate_improvement_actions
      (rfp\<lparr>rad_risk_flags := Some (map Instance risks)\<rparr>)
      (im\<lparr>imd_skill_gaps := Some (map Instance gaps)\<rparr>) wp
     = Inr (spec_improvement_actions gaps risks)
   \<and> length (spec_improvement_actions gaps risks) \<le> 8
   \<and> (generate_improvement_actions rfp' im' wp = Inr acts \<longrightarrow>
        (\<exists>gs rs. get_or (imd_skill_gaps im') [] = map Instance gs
           \<and> get_or (rad_risk_flags rfp') [] = map Instance rs
           \<and> acts = spec_improvement_actions gs rs))"
  using generate_returns[of rfp' im' wp acts]
  by (simp add: generate_improvement_actions_def get_or_def gap_actions_loop_instances
      risk_actions_loop_instances spec_improvement_actions_def)

lemma improvement_actions_on_instances_example:
  "(case generate_improvement_actions
      \<lparr>rad_risk_flags = Some (map Instance sample_risks), rad_evaluation_criteria = None\<rparr>
      \<lparr>imd_overall_readiness = None, imd_confidence_score = None,
        imd_skill_gaps = Some (map Instance sample_gaps), imd_our_advantages = None,
        imd_our_disadvantages = None\<rparr>
      \<lparr>wpd_overall_difficulty = None, wpd_win_probability = None\<rparr> of
      Inl e \<Rightarrow> []
    | Inr actions \<Rightarrow> map (\<lambda>a. (action_type a, priority a)) actions)
   = [(act_internal, SANG), (act_partner, JUNG), (act_spec_query, SANG),
      (act_poc, JUNG), (act_internal, HA)]"
  using improvement_actions_on_instances
    [where rfp = "\<lparr>rad_risk_flags = None, rad_evaluation_criteria = None\<rparr>"
       and risks = sample_risks
       and im = "\<lparr>imd_overall_readiness = None, imd_confidence_score = None,
          imd_skill_gaps = None, imd_our_advantages = None, imd_our_disadvantages = None\<rparr>"
       and gaps = sample_gaps
       and wp = "\<lparr>wpd_overall_difficulty = None, wpd_win_probability = None\<rparr>"]
  by (simp add: synth_eval_defs sample_gaps_def sample_risks_def)

text \<open>
  The orchestrator, the only caller, passes \<open>asdict\<close> output: there every skill gap
  and every risk flag is a dict, the attribute read raises, and the synthesis falls back
  to its default, which lists no action at all.
\<close>

lemma asdict_gaps_raise:
  "skill_gaps m \<noteq> [] \<Longrightarrow>
   generate_improvement_actions rfp (asdict_internal_match m) wp = Inl AttributeError"
proof -
  assume "skill_gaps m \<noteq> []"
  then have "AsDict (hd (skill_gaps m)) \<in> set (map AsDict (skill_gaps m))"
    by simp
  then have "gap_actions_loop (map AsDict (skill_gaps m)) [] = Inl AttributeError"
    by (rule gap_actions_loop_dict)
  then show ?thesis
    by (simp add: generate_improvement_actions_def asdict_internal_match_def get_or_def)
qed

lemma gap_actions_loop_error:
  "gap_actions_loop gs acc = Inl e \<Longrightarrow> e = AttributeError"
proof (induction gs arbitrary: acc)
  case Nil
  then show ?case by simp
next
  case (Cons x xs)
  then show ?case
    by (cases x) (auto split: sum.splits if_splits)
qed

lemma asdict_flags_raise:
  assumes "risk_flags r \<noteq> []"
  shows "generate_improvement_actions (asdict_rfp_analysis r) im wp = Inl AttributeError"
proof (cases "gap_actions_loop (get_or (imd_skill_gaps im) []) []")
  case (Inl e)
  then show ?thesis
    using gap_actions_loop_error[OF Inl]
    by (simp add: generate_improvement_actions_def)
next
  case (Inr actions1)
  have "AsDict (hd (risk_flags r)) \<in> set (map AsDict (risk_flags r))"
    using assms by simp
  then have "risk_actions_loop (map AsDict (risk_flags r)) actions1 = Inl AttributeError"
    by (rule risk_actions_loop_dict)
  then show ?thesis
    using Inr
    by (simp add: generate_improvement_actions_def asdict_rfp_analysis_def get_or_def)
qed

lemma synthesize_with_asdict_gaps:
  "skill_gaps m \<noteq> [] \<Longrightarrow>
   synthesize_strategy rfp (asdict_internal_match m) ca wp = create_default_synthesis"
  by (simp add: synthesize_strategy_def synthesize_strategy_try_def asdict_gaps_raise)

lemma synthesize_with_asdict_flags:
  "risk_flags r \<noteq> [] \<Longrightarrow>
   synthesize_strategy (asdict_rfp_analysis r) im ca wp = create_default_synthesis"
  by (simp add: synthesize_strategy_def synthesize_strategy_try_def asdict_flags_raise)

lemma gap_run:
  "strategy_synthesis (run_full_analysis gap_collaborators content comps)
     = create_default_synthesis"
  by (simp add: run_full_analysis_def run_full_analysis_try_def gap_collaborators_def
      Let_def synthesize_with_asdict_gaps gap_result_def)

text \<open>
  Claim C8. The claim fails on the code. For an internal match with one severe skill
  gap, the specified list has three actions (the internal reinforcement for the gap and
  the two generic ones). The synthesizer, run by the orchestrator on that match, raises
  in \<open>_generate_improvement_actions\<close> and returns no action at all.
\<close>

theorem asdict_gap_yields_no_actions:
  "skill_gaps gap_result = [hd sample_gaps]
   \<and> gap_size (hd sample_gaps) = gap_severe
   \<and> map (\<lambda>a. (action_type a, priority a))
         (spec_improvement_actions (skill_gaps gap_result) [])
       = [(act_internal, SANG), (act_poc, JUNG), (act_internal, HA)]
   \<and> generate_improvement_actions (asdict_rfp_analysis rfp_default_result)
         (asdict_internal_match gap_result) (asdict_win_probability create_default_result)
       = Inl AttributeError
   \<and> improvement_actions (synthesize_strategy (asdict_rfp_analysis rfp_default_result)
         (asdict_internal_match gap_result)
         (asdict_competitive_analysis (analyze_competitors (\<lambda>s. s) default_competitors []))
         (asdict_win_probability create_default_result)) = []
   \<and> improvement_actions (strategy_synthesis
         (run_full_analysis gap_collaborators sample_content None)) = []"
proof -
  have gaps: "skill_gaps gap_result \<noteq> []"
    by (simp add: gap_result_def)
  have shape: "skill_gaps gap_result = [hd sample_gaps]"
    by (simp add: gap_result_def)
  have severe: "gap_size (hd sample_gaps) = gap_severe"
    by (simp add: sample_gaps_def)
  have spec: "map (\<lambda>a. (action_type a, priority a))
         (spec_improvement_actions (skill_gaps gap_result) [])
       = [(act_internal, SANG), (act_poc, JUNG), (act_internal, HA)]"
    by (simp add: synth_eval_defs gap_result_def sample_gaps_def)
  have raises: "generate_improvement_actions (asdict_rfp_analysis rfp_default_result)
         (asdict_internal_match gap_result) (asdict_win_probability create_default_result)
       = Inl AttributeError"
    by (rule asdict_gaps_raise[OF gaps])
  have synth: "improvement_actions (synthesize_strategy (asdict_rfp_analysis rfp_default_result)
         (asdict_internal_match gap_result)
         (asdict_competitive_analysis (analyze_competitors (\<lambda>s. s) default_competitors []))
         (asdict_win_probability create_default_result)) = []"
    by (simp only: synthesize_with_asdict_gaps[OF gaps])
       (simp add: create_default_synthesis_def)
  have run: "improvement_actions (strategy_synthesis
         (run_full_analysis gap_collaborators sample_content None)) = []"
    by (simp only: gap_run) (simp add: create_default_synthesis_def)
  from shape severe spec raises synth run show ?thesis
    by (intro conjI)
qed

section \<open>Properties of the orchestrator\<close>

lemma competitor_names: "map fst competitor_data = default_competitors"
  by (simp add: competitor_data_def default_competitors_def)

lemma known_competitor:
  "c \<in> set default_competitors \<Longrightarrow> \<exists>entry. map_of competitor_data c = Some entry"
  using competitor_names
  by (metis list.set_map map_of_eq_None_iff not_Some_eq)

lemma profiles_loop_names:
  "map company_name (competitor_profiles_loop lower cs reqs)
     = filter (\<lambda>c. map_of competitor_data c \<noteq> None) cs"
  by (induction cs) (auto simp add: create_competitor_profile_def split: option.splits)

lemma profiles_loop_known:
  "set cs \<subseteq> set default_competitors \<Longrightarrow>
   map company_name (competitor_profiles_loop lower cs reqs) = cs"
proof -
  assume "set cs \<subseteq> set default_competitors"
  then have "\<forall>c \<in> set cs. map_of competitor_data c \<noteq> None"
    using known_competitor by blast
  then have "filter (\<lambda>c. map_of competitor_data c \<noteq> None) cs = cs"
    by (simp add: filter_id_conv)
  then show ?thesis by (simp add: profiles_loop_names)
qed

lemma run_try_competitor_analysis:
  "run_full_analysis_try col content cs = Inr result \<Longrightarrow>
   \<exists>reqs. competitor_analysis result = analyze_competitors (str_lower col) cs reqs"
  by (auto simp add: run_full_analysis_try_def Let_def split: sum.splits)

lemma quiet_run:
  "\<exists>result. run_full_analysis_try quiet_collaborators content cs = Inr result"
  by (simp add: run_full_analysis_try_def quiet_collaborators_def Let_def)

text \<open>
  Whatever the collaborators answer, a run that succeeds has analysed every competitor
  of its list that the database knows, in the order of the list.
\<close>

lemma run_analyses_every_known_competitor:
  assumes "run_full_analysis_try col content cs = Inr result"
  shows "map company_name (competitor_profiles (competitor_analysis result))
           = filter (\<lambda>c. map_of competitor_data c \<noteq> None) cs"
proof -
  from run_try_competitor_analysis[OF assms] obtain reqs where
    "competitor_analysis result = analyze_competitors (str_lower col) cs reqs"
    by blast
  then show ?thesis
    by (simp add: analyze_competitors_def Let_def profiles_loop_names)
qed

lemma quiet_run_names:
  "set cs \<subseteq> set default_competitors \<Longrightarrow>
   map company_name (competitor_profiles (competitor_analysis
      (run_full_analysis quiet_collaborators content (Some cs)))) = cs"
proof -
  assume known: "set cs \<subseteq> set default_competitors"
  obtain result where r: "run_full_analysis_try quiet_collaborators content cs = Inr result"
    using quiet_run by blast
  then obtain reqs where
    "competitor_analysis result = analyze_competitors (str_lower quiet_collaborators) cs reqs"
    using run_try_competitor_analysis by blast
  then have "map company_name (competitor_profiles (competitor_analysis result)) = cs"
    using known by (simp add: analyze_competitors_def Let_def profiles_loop_known)
  then show ?thesis
    using r by (simp add: run_full_analysis_def competitors_or_default_def)
qed

lemma sample_content_valid:
  "sample_content \<noteq> [] \<and> length (py_strip sample_content) = 100"
proof -
  have "dropWhile py_isspace (replicate 100 (97::nat)) = replicate 100 97"
    by (rule dropWhile_eq_self_iff[THEN iffD2]) (simp add: py_isspace_def)
  then show ?thesis
    by (simp add: sample_content_def py_strip_def)
qed

lemma eleven_known: "set eleven_competitors \<subseteq> set default_competitors"
  by (auto simp add: eleven_competitors_def dest: in_set_takeD)

lemma eleven_length: "length eleven_competitors = 11"
  by (simp add: eleven_competitors_def default_competitors_def)

lemma validate_sample:
  "validate_inputs sample_content (Some cs) =
     Inr \<lparr> is_valid = True, errors = [],
           warnings = (if cs = [] then [msg_competitors_empty] else [])
                      @ (if length cs > 10 then [msg_competitors_too_many] else []) \<rparr>"
  using sample_content_valid
  by (simp add: validate_inputs_def Let_def)

text \<open>
  Claim C3. A list of 11 competitors, all in the database, draws the warning that only
  the top 10 are analysed and no error; the run then analyses all 11 of them: nothing
  cuts the list to 10.
\<close>

theorem eleven_competitors_all_analysed:
  "length eleven_competitors = 11
   \<and> validate_inputs sample_content (Some eleven_competitors)
       = Inr \<lparr> is_valid = True, errors = [], warnings = [msg_competitors_too_many] \<rparr>
   \<and> map company_name (competitor_profiles (competitor_analysis
         (run_full_analysis quiet_collaborators sample_content (Some eleven_competitors))))
       = eleven_competitors
   \<and> length (competitor_profiles (competitor_analysis
         (run_full_analysis quiet_collaborators sample_content (Some eleven_competitors))))
       = 11"
proof -
  have names: "map company_name (competitor_profiles (competitor_analysis
         (run_full_analysis quiet_collaborators sample_content (Some eleven_competitors))))
       = eleven_competitors"
    by (rule quiet_run_names[OF eleven_known])
  have "length (map company_name (competitor_profiles (competitor_analysis
         (run_full_analysis quiet_collaborators sample_content (Some eleven_competitors)))))
       = 11"
    by (simp only: names eleven_length)
  then have len: "length (competitor_profiles (competitor_analysis
         (run_full_analysis quiet_collaborators sample_content (Some eleven_competitors))))
       = 11"
    by simp
  have nonempty: "eleven_competitors \<noteq> []"
    using eleven_length by auto
  show ?thesis
    using names len nonempty eleven_length
    by (simp add: validate_sample)
qed

lemma quiet_run_default:
  "map company_name (competitor_profiles (competitor_analysis
      (run_full_analysis quiet_collaborators content None))) = default_competitors"
proof -
  have "run_full_analysis quiet_collaborators content None
        = run_full_analysis quiet_collaborators content (Some default_competitors)"
    by (simp add: run_full_analysis_def competitors_or_default_def)
  then show ?thesis
    using quiet_run_names[of default_competitors content] by simp
qed

text \<open>
  Claim C4. An empty competitor list draws the warning that the default list is used and
  no error; the run then analyses no competitor at all. The default list of 7 is taken
  only when the list is left out (\<open>None\<close>).
\<close>

theorem empty_competitor_list_not_replaced:
  "validate_inputs sample_content (Some [])
       = Inr \<lparr> is_valid = True, errors = [], warnings = [msg_competitors_empty] \<rparr>
   \<and> competitor_profiles (competitor_analysis
         (run_full_analysis quiet_collaborators sample_content (Some []))) = []
   \<and> map company_name (competitor_profiles (competitor_analysis
         (run_full_analysis quiet_collaborators sample_content None))) = default_competitors
   \<and> length default_competitors = 7"
proof -
  have "map company_name (competitor_profiles (competitor_analysis
         (run_full_analysis quiet_collaborators sample_content (Some [])))) = []"
    by (rule quiet_run_names) simp
  then have "competitor_profiles (competitor_analysis
         (run_full_analysis quiet_collaborators sample_content (Some []))) = []"
    by simp
  moreover have "length default_competitors = 7"
    by (simp add: default_competitors_def)
  ultimately show ?thesis
    by (simp add: validate_sample quiet_run_default)
qed

lemma failed_run_returns_error_result:
  "run_full_analysis_try col content (competitors_or_default comps) = Inl e \<Longrightarrow>
   run_full_analysis col content comps = create_error_result"
  by (simp add: run_full_analysis_def)

lemma failing_run:
  "run_full_analysis_try failing_collaborators content cs = Inl (StageError [])"
  by (simp add: run_full_analysis_try_def failing_collaborators_def)

text \<open>
  The error result stores \<open>None\<close> for the SWOT of its strategy synthesis, where the
  synthesizer's own default holds a SWOT of empty lists; \<open>get_synthesis_summary\<close>
  raises on it.
\<close>

lemma error_result_swot_missing:
  "company_swot (strategy_synthesis create_error_result) = None
   \<and> get_synthesis_summary (strategy_synthesis create_error_result) = Inl AttributeError
   \<and> company_swot create_default_synthesis
       = Some \<lparr> strengths = [], weaknesses = [], opportunities = [], threats = [],
                 strategic_focus = [] \<rparr>"
  by (simp add: create_error_result_def get_synthesis_summary_def create_default_synthesis_def)

text \<open>
  Claim C2. The claim fails on the code. Every failed run returns the error result, and
  in it the SWOT of the strategy synthesis is null: a caller that reads it as
  \<open>get_synthesis_summary\<close> does gets an exception. The synthesizer's own default
  holds a SWOT of empty lists in the same place.
\<close>

theorem failed_run_swot_is_null:
  assumes "run_full_analysis_try col content (competitors_or_default comps) = Inl e"
  shows "company_swot (strategy_synthesis (run_full_analysis col content comps)) = None
   \<and> get_synthesis_summary (strategy_synthesis (run_full_analysis col content comps))
       = Inl AttributeError
   \<and> company_swot create_default_synthesis
       = Some \<lparr> strengths = [], weaknesses = [], opportunities = [], threats = [],
                 strategic_focus = [] \<rparr>"
  using failed_run_returns_error_result[OF assms] error_result_swot_missing
  by simp

theorem failed_run_swot_is_null_witness:
  "run_full_analysis_try failing_collaborators sample_content (competitors_or_default None)
     = Inl (StageError [])
   \<and> company_swot (strategy_synthesis
         (run_full_analysis failing_collaborators sample_content None)) = None
   \<and> get_synthesis_summary (strategy_synthesis
         (run_full_analysis failing_collaborators sample_content None)) = Inl AttributeError"
  using failing_run[of sample_content "competitors_or_default None"]
    failed_run_swot_is_null[OF failing_run[of sample_content "competitors_or_default None"]]
  by simp

section \<open>Properties of the export\<close>

lemma those_map_inverse:
  "(\<And>x. f (g x) = Some x) \<Longrightarrow> those (map (f \<circ> g) xs) = Some xs"
  by (induction xs) simp_all

lemmas read_defs = json_get_def read_str_def read_num_def read_opt_str_def read_list_def
  read_plain_str_def

lemma reparse_evaluation_score_inverse:
  "reparse_evaluation_score (json_evaluation_score s) = Some s"
  by (simp add: reparse_evaluation_score_def json_evaluation_score_def read_defs)

lemma reparse_risk_factor_inverse:
  "reparse_risk_factor (json_risk_factor r) = Some r"
  by (cases "mitigation r")
     (simp_all add: reparse_risk_factor_def json_risk_factor_def json_opt_str_def read_defs)

lemma read_plain_str_inverse: "read_plain_str (JStr s) = Some s"
  by (simp add: read_plain_str_def)

lemma reparse_win_probability_inverse:
  "reparse_win_probability (json_win_probability w) = Some w"
  by (simp add: reparse_win_probability_def json_win_probability_def json_strs_def
      json_get_def read_str_def read_num_def read_list_def
      those_map_inverse[of reparse_evaluation_score json_evaluation_score,
        OF reparse_evaluation_score_inverse]
      those_map_inverse[of reparse_risk_factor json_risk_factor,
        OF reparse_risk_factor_inverse]
      those_map_inverse[of read_plain_str JStr, OF read_plain_str_inverse])

lemma summary_reads:
  "read_str (JDict (get_analysis_summary result)) [49688, 51452, 95, 45212, 51060, 46020]
     = Some (overall_difficulty (apr_win_probability result))
   \<and> read_str (JDict (get_analysis_summary result)) [49688, 51452, 95, 54869, 47456]
     = Some (format_percent_1 (win_probability (apr_win_probability result)))"
  by (simp add: get_analysis_summary_def read_str_def json_get_def)

text \<open>
  Claim C9, amended. Reparsing the full export gives back the win probability result
  field for field. The summary export keeps of it the difficulty tier, and the win
  probability only as a percentage text with one decimal.
\<close>

theorem full_export_round_trip:
  "reparse_report (export_analysis_report result [106, 115, 111, 110]) = Some (apr_win_probability result)
   \<and> read_str (JDict (get_analysis_summary result)) [49688, 51452, 95, 45212, 51060, 46020]
     = Some (overall_difficulty (apr_win_probability result))
   \<and> read_str (JDict (get_analysis_summary result)) [49688, 51452, 95, 54869, 47456]
     = Some (format_percent_1 (win_probability (apr_win_probability result)))"
  by (simp add: summary_reads reparse_report_def export_analysis_report_def asdict_result_def
      json_get_def reparse_win_probability_inverse)

theorem full_export_round_trip_witness:
  "reparse_report (export_analysis_report near_half_result [106, 115, 111, 110])
     = Some \<lparr> overall_difficulty = JUNG, win_probability = 1251/2500,
              evaluation_scores = [], risk_factors = [], key_drivers = [],
              confidence_level = 0 \<rparr>"
  using full_export_round_trip[of near_half_result]
  by (simp add: near_half_result_def create_error_result_def)

lemma percent_half: "format_percent_1 (1/2) = [53, 48, 46, 48, 37]"
  by code_simp

lemma percent_near_half: "format_percent_1 (1251/2500) = [53, 48, 46, 48, 37]"
  by code_simp

text \<open>
  Against claim C9 as stated: two results with win probabilities 0.5 and 0.5004 have the
  same summary export, and the summary holds no win probability result to read back.
\<close>

theorem summary_export_loses_fields:
  "export_analysis_report create_error_result [115, 117, 109, 109, 97, 114, 121]
     = export_analysis_report near_half_result [115, 117, 109, 109, 97, 114, 121]
   \<and> win_probability (apr_win_probability create_error_result) = 1/2
   \<and> win_probability (apr_win_probability near_half_result) = 1251/2500
   \<and> reparse_report (export_analysis_report create_error_result [115, 117, 109, 109, 97, 114, 121]) = None"
  by (simp add: export_analysis_report_def get_analysis_summary_def near_half_result_def
      create_error_result_def percent_half percent_near_half reparse_report_def json_get_def)

end
